theory Spec2Isabelle
  imports Complex_Main "HOL-Library.Sublist"
begin

section \<open>JavaScript values\<close>

text \<open>
  Strings are lists of code units; the model covers the code units below 256, which is
  where every literal of the program lives. A thrown value is an \<open>Error\<close> or a
  \<open>TypeError\<close> carrying its message. A value produced by \<open>JSON.parse\<close> (or received
  as a request body) is a \<open>json\<close>; \<open>undefined\<close> is \<open>None\<close> of \<open>json option\<close>.
\<close>

datatype exn = Error string | TypeError string

datatype json =
    JNull
  | JBool bool
  | JNum rat
  | JStr string
  | JArr "json list"
  | JObj "(string \<times> json) list"

text \<open>\<open>e instanceof Error ? e.message : ...\<close>: both kinds of thrown value are Errors.\<close>

fun message_of :: "exn \<Rightarrow> string" where
  "message_of (Error m) = m"
| "message_of (TypeError m) = m"

text \<open>
  Reading the property \<open>k\<close> of a value that is neither \<open>null\<close> nor \<open>undefined\<close>. Only
  objects carry the property names the program reads (\<open>action\<close>, \<open>label\<close>, \<open>value\<close>,
  \<open>role\<close>, \<open>name\<close>, \<open>firstName\<close>, \<open>lastName\<close>); on a primitive or an array
  the read gives \<open>undefined\<close>.
\<close>

fun get_prop :: "json \<Rightarrow> string \<Rightarrow> json option" where
  "get_prop (JObj kvs) k = map_of kvs k"
| "get_prop _ k = None"

text \<open>JavaScript truthiness, as used by \<open>!x\<close>.\<close>

fun truthy :: "json option \<Rightarrow> bool" where
  "truthy None = False"
| "truthy (Some JNull) = False"
| "truthy (Some (JBool b)) = b"
| "truthy (Some (JNum n)) = (n \<noteq> 0)"
| "truthy (Some (JStr s)) = (s \<noteq> [])"
| "truthy (Some (JArr xs)) = True"
| "truthy (Some (JObj kvs)) = True"

text \<open>\<open>x || ''\<close> on a value that is a string or \<open>null\<close>/\<open>undefined\<close>.\<close>

definition or_empty :: "string option \<Rightarrow> string" where
  "or_empty x = (case x of None \<Rightarrow> [] | Some v \<Rightarrow> (if v = [] then [] else v))"

definition newline :: string where
  "newline = [CHR 0x0A]"

text \<open>\<open>String.prototype.toLowerCase\<close> on code units below 256.\<close>

definition lower_char :: "char \<Rightarrow> char" where
  "lower_char c =
     (let n = (of_char c :: nat)
      in if (65 \<le> n \<and> n \<le> 90) \<or> (192 \<le> n \<and> n \<le> 222 \<and> n \<noteq> 215)
         then char_of (n + 32) else c)"

definition toLowerCase :: "string \<Rightarrow> string" where
  "toLowerCase s = map lower_char s"

text \<open>
  \<open>String.prototype.trim\<close>: white space and line terminators are removed from both
  ends. Below 256 these are TAB, LF, VT, FF, CR, SPACE and NBSP.
\<close>

definition is_ws :: "char \<Rightarrow> bool" where
  "is_ws c = ((of_char c :: nat) \<in> {9, 10, 11, 12, 13, 32, 160})"

definition trim :: "string \<Rightarrow> string" where
  "trim s = rev (dropWhile is_ws (rev (dropWhile is_ws s)))"

text \<open>\<open>Array.prototype.join\<close> on an array of strings.\<close>

fun join :: "string \<Rightarrow> string list \<Rightarrow> string" where
  "join sep [] = []"
| "join sep [x] = x"
| "join sep (x # y # ys) = x @ sep @ join sep (y # ys)"

text \<open>\<open>Array.prototype.map\<close> with a callback that may throw: the first throw ends the map.\<close>

fun mapE :: "('a \<Rightarrow> exn + 'b) \<Rightarrow> 'a list \<Rightarrow> exn + 'b list" where
  "mapE f [] = Inr []"
| "mapE f (x # xs) =
     (case f x of
        Inl e \<Rightarrow> Inl e
      | Inr y \<Rightarrow> (case mapE f xs of Inl e \<Rightarrow> Inl e | Inr ys \<Rightarrow> Inr (y # ys)))"

text \<open>
  The conversion to a string that a template literal applies to a parsed value, given
  the conversion of numbers. An array joins its elements with commas, writing nothing for
  \<open>null\<close>. An object without a property \<open>toString\<close> of its own gives
  \<open>[object Object]\<close>; with one, which a parsed value never makes callable, neither
  \<open>toString\<close> nor \<open>valueOf\<close> yields a primitive and the conversion throws a
  \<open>TypeError\<close>.
\<close>

fun js_string :: "(rat \<Rightarrow> string) \<Rightarrow> json \<Rightarrow> exn + string"
  and js_strings :: "(rat \<Rightarrow> string) \<Rightarrow> json list \<Rightarrow> exn + string list" where
  "js_string num JNull = Inr ''null''"
| "js_string num (JBool b) = Inr (if b then ''true'' else ''false'')"
| "js_string num (JNum n) = Inr (num n)"
| "js_string num (JStr t) = Inr t"
| "js_string num (JArr xs) =
     (case js_strings num xs of Inl e \<Rightarrow> Inl e | Inr ts \<Rightarrow> Inr (join '','' ts))"
| "js_string num (JObj kvs) =
     (if map_of kvs ''toString'' = None then Inr ''[object Object]''
      else Inl (TypeError ''Cannot convert object to primitive value''))"
| "js_strings num [] = Inr []"
| "js_strings num (x # xs) =
     (case (if x = JNull then Inr [] else js_string num x) of
        Inl e \<Rightarrow> Inl e
      | Inr t \<Rightarrow> (case js_strings num xs of Inl e \<Rightarrow> Inl e | Inr ts \<Rightarrow> Inr (t # ts)))"

section \<open>The action parser's regular expression\<close>

text \<open>
  \<open>text.match(/\{[\s\S]*\}/)\<close>: the match starts at the first opening brace; the
  starred class takes every code unit, line breaks included, and is greedy, so the match
  ends at the last closing brace after that opening brace. With no closing brace after
  the first opening brace no later start can match either, and the result is \<open>null\<close>.
  \<open>jsonMatch text\<close> is \<open>jsonMatch[0]\<close>, or \<open>None\<close> for \<open>null\<close>.
\<close>

definition jsonMatch :: "string \<Rightarrow> string option" where
  "jsonMatch text =
     (case dropWhile (\<lambda>c. c \<noteq> CHR ''{'') text of
        [] \<Rightarrow> None
      | c # rest \<Rightarrow>
          (if CHR ''}'' \<in> set rest
           then Some (c # rev (dropWhile (\<lambda>c. c \<noteq> CHR ''}'') (rev rest)))
           else None))"

section \<open>The page serializer\<close>

text \<open>
  What the callback of \<open>page.evaluate\<close> reads from the DOM. An element gives its
  \<open>tagName\<close>, its \<open>id\<close>, \<open>getAttribute\<close> (\<open>None\<close> for \<open>null\<close>), and its
  \<open>textContent\<close>; an input or a text area gives its \<open>value\<close>; a select gives its
  \<open>options\<close> and its \<open>selectedIndex\<close> (\<open>-1\<close> when nothing is selected). An option gives
  its \<open>text\<close> and its \<open>value\<close>. The document gives the elements a selector of
  \<open>querySelectorAll\<close> matches and its label elements, both in document order;
  \<open>querySelector\<close> is the answer of the selector engine to the selectors that
  \<open>document_querySelector\<close> below does not read itself, and throws on a selector the
  engine cannot parse.
\<close>

record html_option =
  option_text :: string
  option_value :: string

record element =
  tagName :: string
  elem_id :: string
  getAttribute :: "string \<Rightarrow> string option"
  elem_value :: string
  options :: "html_option list"
  selectedIndex :: int
  textContent :: "string option"

record document =
  querySelectorAll :: "string \<Rightarrow> element list"
  labels :: "element list"
  querySelector :: "string \<Rightarrow> exn + element option"

text \<open>\<open>el.options[el.selectedIndex]\<close>: \<open>undefined\<close> outside the collection.\<close>

definition selectedOption :: "element \<Rightarrow> html_option option" where
  "selectedOption el =
     (if 0 \<le> selectedIndex el \<and> selectedIndex el < int (length (options el))
      then Some (options el ! nat (selectedIndex el)) else None)"

text \<open>The \<open>value\<close> variable of the callback (lines 67 to 75).\<close>

definition element_value :: "element \<Rightarrow> string" where
  "element_value el =
     (let tag = toLowerCase (tagName el)
      in if tag = ''input'' \<or> tag = ''textarea''
         then or_empty (Some (elem_value el))
         else if tag = ''select''
         then (case selectedOption el of Some opt \<Rightarrow> option_text opt | None \<Rightarrow> [])
         else [])"

text \<open>The selector built for the label lookup (line 78).\<close>

definition label_selector :: "element \<Rightarrow> string" where
  \<open>label_selector el = ''label[for="'' @ elem_id el @ ''"]''\<close>

text \<open>
  \<open>document.querySelector\<close>. Inside the double quotes of an attribute selector a
  double quote, a backslash, a line break (LF, FF, CR) and NUL do not stand for
  themselves; every other code unit does. So a selector \<open>label[for="v"]\<close> whose \<open>v\<close>
  holds none of them selects the first label element whose \<open>for\<close> attribute is
  \<open>v\<close>. Every other selector is left to the engine.
\<close>

definition css_special :: "char \<Rightarrow> bool" where
  "css_special c = (c \<in> set [CHR 0x22, CHR 0x5C, CHR 0x0A, CHR 0x0C, CHR 0x0D, CHR 0x00])"

definition css_plain :: "string \<Rightarrow> bool" where
  "css_plain v = (filter css_special v = [])"

definition label_query :: "string \<Rightarrow> string option" where
  \<open>label_query sel =
     (let v = take (length sel - length ''label[for="'' - length ''"]'')
                (drop (length ''label[for="'') sel)
      in if sel = ''label[for="'' @ v @ ''"]'' \<and> css_plain v then Some v else None)\<close>

definition document_querySelector :: "document \<Rightarrow> string \<Rightarrow> exn + element option" where
  "document_querySelector doc sel =
     (case label_query sel of
        Some v \<Rightarrow> Inr (find (\<lambda>l. getAttribute l ''for'' = Some v) (labels doc))
      | None \<Rightarrow> querySelector doc sel)"

text \<open>
  The \<open>label\<close> variable of the callback (lines 78 to 80): \<open>?.trim()\<close> gives
  \<open>undefined\<close> on a \<open>null\<close> text content.
\<close>

definition element_label :: "document \<Rightarrow> element \<Rightarrow> exn + string option" where
  "element_label doc el =
     (case document_querySelector doc (label_selector el) of
        Inl e \<Rightarrow> Inl e
      | Inr labelEl \<Rightarrow>
          Inr (case labelEl of
                 Some l \<Rightarrow> map_option trim (textContent l)
               | None \<Rightarrow> map_option trim (textContent el)))"

text \<open>The callback of \<open>interactiveElements.map\<close> (lines 63 to 83).\<close>

definition serializeElement :: "document \<Rightarrow> element \<Rightarrow> exn + string" where
  \<open>serializeElement doc el =
     (let tag = toLowerCase (tagName el);
          name = or_empty (getAttribute el ''name'');
          type = or_empty (getAttribute el ''type'');
          val = element_value el
      in case element_label doc el of
           Inl e \<Rightarrow> Inl e
         | Inr label \<Rightarrow>
             Inr (''<'' @ tag @ '' type="'' @ type @ ''" name="'' @ name @ ''" value="'' @ val
                  @ ''">'' @ or_empty label @ ''</'' @ tag @ ''>''))\<close>

definition interactive_selector :: string where
  \<open>interactive_selector = ''input, textarea, select, button, a[role="button"], h2''\<close>

text \<open>The function passed to \<open>page.evaluate\<close> (lines 61 to 84).\<close>

definition serializeElements :: "document \<Rightarrow> exn + string list" where
  "serializeElements doc =
     mapE (serializeElement doc) (querySelectorAll doc interactive_selector)"

section \<open>Conversation, collaborators and run state\<close>

datatype role = System | User | Assistant

record message =
  role :: role
  content :: string

text \<open>
  The collaborators of a run. Each call into the browser or the language model reads and
  changes a world \<open>'w\<close> and either returns or throws. \<open>page_document\<close> is the browser
  side of \<open>page.evaluate\<close>: it gives the callback its document. \<open>JSON_parse\<close>,
  \<open>JSON_stringify\<close> and \<open>number_to_string\<close> (how a number is written) belong to the
  language runtime. The three locator calls take the values read from the action,
  \<open>undefined\<close> included.
\<close>

record 'w collaborators =
  chromium_launch :: "'w \<Rightarrow> (exn + unit) \<times> 'w"
  browser_newPage :: "'w \<Rightarrow> (exn + unit) \<times> 'w"
  page_goto :: "string \<Rightarrow> 'w \<Rightarrow> (exn + unit) \<times> 'w"
  page_document :: "'w \<Rightarrow> (exn + document) \<times> 'w"
  generateText :: "message list \<Rightarrow> 'w \<Rightarrow> (exn + string) \<times> 'w"
  JSON_parse :: "string \<Rightarrow> exn + json"
  JSON_stringify :: "json \<Rightarrow> string"
  number_to_string :: "rat \<Rightarrow> string"
  getByLabel_fill :: "json option \<Rightarrow> json option \<Rightarrow> 'w \<Rightarrow> (exn + unit) \<times> 'w"
  getByRole_click :: "json option \<Rightarrow> json option \<Rightarrow> 'w \<Rightarrow> (exn + unit) \<times> 'w"
  getByLabel_selectOption :: "json option \<Rightarrow> json option \<Rightarrow> 'w \<Rightarrow> (exn + unit) \<times> 'w"
  page_waitForTimeout :: "nat \<Rightarrow> 'w \<Rightarrow> (exn + unit) \<times> 'w"
  browser_close :: "'w \<Rightarrow> (exn + unit) \<times> 'w"

text \<open>\<open>`${v}`\<close> for a value read from a parsed object, \<open>undefined\<close> included.\<close>

definition to_string :: "'w collaborators \<Rightarrow> json option \<Rightarrow> exn + string" where
  "to_string env v =
     (case v of None \<Rightarrow> Inr ''undefined'' | Some j \<Rightarrow> js_string (number_to_string env) j)"

text \<open>
  The run keeps a trace beside the world: every collaborator call with its outcome, the
  entry into the loop body (where the program logs the step header), a caught parse
  failure (where it logs the invalid reply) and a throw of the dispatcher's own. Other
  console output is left out.
\<close>

datatype call =
    Launch
  | NewPage
  | Goto string
  | Evaluate
  | GenerateText "message list"
  | Fill "json option" "json option"
  | Click "json option" "json option"
  | SelectOption "json option" "json option"
  | WaitForTimeout nat
  | Close

datatype event =
    EnterStep nat
  | Returned call
  | Threw call exn
  | ParseFailed exn
  | DispatchThrew exn

record 'w state =
  world :: 'w
  trace :: "event list"
  conversationHistory :: "message list"

definition log_event :: "event \<Rightarrow> 'w state \<Rightarrow> 'w state" where
  "log_event ev s = s\<lparr>trace := trace s @ [ev]\<rparr>"

definition push :: "message \<Rightarrow> 'w state \<Rightarrow> 'w state" where
  "push m s = s\<lparr>conversationHistory := conversationHistory s @ [m]\<rparr>"

text \<open>An awaited collaborator call: the world moves on and the outcome is traced.\<close>

definition invoke :: "call \<Rightarrow> ('w \<Rightarrow> (exn + 'a) \<times> 'w) \<Rightarrow> 'w state \<Rightarrow> (exn + 'a) \<times> 'w state" where
  "invoke c f s =
     (case f (world s) of
        (Inl e, w) \<Rightarrow> (Inl e, log_event (Threw c e) (s\<lparr>world := w\<rparr>))
      | (Inr a, w) \<Rightarrow> (Inr a, log_event (Returned c) (s\<lparr>world := w\<rparr>)))"

section \<open>Perceiving: \<open>getSerializedPage\<close> and \<open>createSession\<close>\<close>

text \<open>
  \<open>page.evaluate(callback)\<close>: the browser may fail before the callback runs; a throw of
  the callback rejects the call as well.
\<close>

definition page_evaluate ::
  "'w collaborators \<Rightarrow> (document \<Rightarrow> exn + 'a) \<Rightarrow> 'w \<Rightarrow> (exn + 'a) \<times> 'w" where
  "page_evaluate env callback w =
     (case page_document env w of
        (Inl e, w') \<Rightarrow> (Inl e, w')
      | (Inr doc, w') \<Rightarrow> (callback doc, w'))"

definition getSerializedPage :: "'w collaborators \<Rightarrow> 'w state \<Rightarrow> (exn + string) \<times> 'w state" where
  "getSerializedPage env s =
     (case invoke Evaluate (page_evaluate env serializeElements) s of
        (Inl e, s') \<Rightarrow> (Inl e, s')
      | (Inr elements, s') \<Rightarrow> (Inr (join newline elements), s'))"

definition createSession :: "'w collaborators \<Rightarrow> string \<Rightarrow> 'w state \<Rightarrow> (exn + unit) \<times> 'w state" where
  "createSession env url s =
     (case invoke NewPage (browser_newPage env) s of
        (Inl e, s') \<Rightarrow> (Inl e, s')
      | (Inr _, s') \<Rightarrow> invoke (Goto url) (page_goto env url) s')"

section \<open>Prompts\<close>

definition target_url :: string where
  "target_url = ''https://magical-medical-form.netlify.app/''"

definition objective :: "'w collaborators \<Rightarrow> json \<Rightarrow> string" where
  "objective env data =
     ''Your goal is to fill out this medical form with these details: ''
     @ JSON_stringify env data @ ''.''"

definition systemPrompt :: "'w collaborators \<Rightarrow> json \<Rightarrow> string" where
  \<open>systemPrompt env data =
     newline
     @ ''      You are an AI agent filling a web form. Your objective is: ''
     @ objective env data @ ''.'' @ newline
     @ ''      Your response MUST be a single, valid JSON object and nothing else.'' @ newline
     @ ''      '' @ newline
     @ ''      **RULES:**'' @ newline
     @ ''      1. For the "label" in your JSON response, you MUST use the visible text of the form field's label (e.g., "First Name", "Date of Birth"), not the HTML 'name' attribute (e.g., "firstName").'' @ newline
     @ ''      2. For the "name" in a click action, use the visible text of the button or header.'' @ newline
     @ ''      3. First, fill all fields specified in the objective. Do not fill fields that are already correctly filled.'' @ newline
     @ ''      4. After all fields are filled, your next action MUST be to click the 'Submit' button.'' @ newline
     @ ''      5. Only after you have clicked 'Submit' should you respond with {"action": "finish"}.'' @ newline
     @ newline
     @ ''      Available actions: {"action": "fill", "label": "..."}, {"action": "click", "role": "button", "name": "..."}, {"action": "select", "label": "..."}, {"action": "finish"}.'' @ newline
     @ ''    ''\<close>

definition currentPrompt :: "string \<Rightarrow> string" where
  \<open>currentPrompt pageElements =
     ''Based on our history and the current page state, what is the next action? Page state:''
     @ newline @ ''```html'' @ newline @ pageElements @ newline @ ''```''\<close>

definition correction :: message where
  "correction = \<lparr>role = User, content = ''Your last response was invalid JSON. Please try again.''\<rparr>"

section \<open>Parsing and dispatching\<close>

text \<open>
  The inner \<open>try\<close> block (lines 153 to 158): \<open>Inl\<close> is the value its \<open>catch\<close> receives.
\<close>

definition parseAction :: "'w collaborators \<Rightarrow> string \<Rightarrow> exn + json" where
  "parseAction env text =
     (case jsonMatch text of
        None \<Rightarrow> Inl (Error ''No JSON object found in response.'')
      | Some m \<Rightarrow> JSON_parse env m)"

text \<open>How one pass through the loop body ends.\<close>

datatype signal = Continue | Return | Throw exn

definition max_wait :: nat where
  "max_wait = 60000"

text \<open>
  The \<open>switch\<close> on \<open>action.action\<close> (lines 168 to 185). Reading a property of \<open>null\<close>
  throws a \<open>TypeError\<close>; the cases compare with \<open>===\<close>; \<open>break\<close> and \<open>continue\<close> both
  go on to the next iteration. The default branch writes \<open>action.action\<close> into its log
  line with a template literal before it continues, and that conversion can throw.
\<close>

definition dispatch :: "'w collaborators \<Rightarrow> json \<Rightarrow> 'w state \<Rightarrow> signal \<times> 'w state" where
  \<open>dispatch env action s =
     (if action = JNull
      then (let e = TypeError ''Cannot read properties of null (reading 'action')''
            in (Throw e, log_event (DispatchThrew e) s))
      else
        (let kind = get_prop action ''action'' in
         if kind = Some (JStr ''fill'') then
           (case invoke (Fill (get_prop action ''label'') (get_prop action ''value''))
                   (getByLabel_fill env (get_prop action ''label'') (get_prop action ''value'')) s of
              (Inl e, s') \<Rightarrow> (Throw e, s')
            | (Inr _, s') \<Rightarrow> (Continue, s'))
         else if kind = Some (JStr ''click'') then
           (case invoke (Click (get_prop action ''role'') (get_prop action ''name''))
                   (getByRole_click env (get_prop action ''role'') (get_prop action ''name'')) s of
              (Inl e, s') \<Rightarrow> (Throw e, s')
            | (Inr _, s') \<Rightarrow> (Continue, s'))
         else if kind = Some (JStr ''select'') then
           (case invoke (SelectOption (get_prop action ''label'') (get_prop action ''value''))
                   (getByLabel_selectOption env (get_prop action ''label'') (get_prop action ''value'')) s of
              (Inl e, s') \<Rightarrow> (Throw e, s')
            | (Inr _, s') \<Rightarrow> (Continue, s'))
         else if kind = Some (JStr ''finish'') then
           (case invoke (WaitForTimeout max_wait) (page_waitForTimeout env max_wait) s of
              (Inl e, s') \<Rightarrow> (Throw e, s')
            | (Inr _, s') \<Rightarrow> (Return, s'))
         else
           (case to_string env kind of
              Inl e \<Rightarrow> (Throw e, log_event (DispatchThrew e) s)
            | Inr _ \<Rightarrow> (Continue, s))))\<close>

section \<open>The perceive-think-act loop\<close>

definition maxSteps :: nat where
  "maxSteps = 20"

text \<open>The body of the \<open>for\<close> loop (lines 130 to 185) at index \<open>i\<close>.\<close>

definition step :: "'w collaborators \<Rightarrow> nat \<Rightarrow> 'w state \<Rightarrow> signal \<times> 'w state" where
  "step env i s =
     (case getSerializedPage env (log_event (EnterStep i) s) of
        (Inl e, s1) \<Rightarrow> (Throw e, s1)
      | (Inr pageElements, s1) \<Rightarrow>
          (let s2 = push \<lparr>role = User, content = currentPrompt pageElements\<rparr> s1
           in case invoke (GenerateText (conversationHistory s2))
                     (generateText env (conversationHistory s2)) s2 of
                (Inl e, s3) \<Rightarrow> (Throw e, s3)
              | (Inr text, s3) \<Rightarrow>
                  (let s4 = push \<lparr>role = Assistant, content = text\<rparr> s3
                   in case parseAction env text of
                        Inl e \<Rightarrow> (Continue, push correction (log_event (ParseFailed e) s4))
                      | Inr action \<Rightarrow> dispatch env action s4)))"

datatype outcome = Finished | Exhausted | Aborted exn

text \<open>\<open>for (let i = 0; i < maxSteps; i++)\<close>, entered at index \<open>i\<close>.\<close>

function loop :: "'w collaborators \<Rightarrow> nat \<Rightarrow> 'w state \<Rightarrow> outcome \<times> 'w state" where
  "loop env i s =
     (if i < maxSteps
      then (case step env i s of
              (Continue, s') \<Rightarrow> loop env (i + 1) s'
            | (Return, s') \<Rightarrow> (Finished, s')
            | (Throw e, s') \<Rightarrow> (Aborted e, s'))
      else (Exhausted, s))"
  by pat_completeness auto
termination
  by (relation "measure (\<lambda>(env, i, s). maxSteps - i)") auto

declare loop.simps [simp del]

section \<open>The workflow entry point\<close>

definition fresh :: "'w \<Rightarrow> 'w state" where
  "fresh w = \<lparr>world = w, trace = [], conversationHistory = []\<rparr>"

definition init_history :: "'w collaborators \<Rightarrow> json \<Rightarrow> 'w state \<Rightarrow> 'w state" where
  "init_history env data s =
     s\<lparr>conversationHistory := [\<lparr>role = System, content = systemPrompt env data\<rparr>]\<rparr>"

text \<open>
  How the \<open>try\<close> block completes after the loop: the \<open>return\<close> of the \<open>finish\<close> case
  and the fall out of the loop both complete normally; a throw reaches the \<open>catch\<close>, which
  throws it again.
\<close>

fun completion :: "outcome \<Rightarrow> exn + unit" where
  "completion Finished = Inr ()"
| "completion Exhausted = Inr ()"
| "completion (Aborted e) = Inl e"

text \<open>
  The \<open>try\<close> block of \<open>main\<close> (lines 98 to 187) with its \<open>catch\<close>. The middle component
  tells whether \<open>browser\<close> was assigned.
\<close>

definition main_try ::
  "'w collaborators \<Rightarrow> json \<Rightarrow> 'w state \<Rightarrow> (exn + unit) \<times> bool \<times> 'w state" where
  "main_try env data s0 =
     (case invoke Launch (chromium_launch env) s0 of
        (Inl e, s1) \<Rightarrow> (Inl e, False, s1)
      | (Inr _, s1) \<Rightarrow>
          (case createSession env target_url s1 of
             (Inl e, s2) \<Rightarrow> (Inl e, True, s2)
           | (Inr _, s2) \<Rightarrow>
               (case loop env 0 (init_history env data s2) of
                  (out, s3) \<Rightarrow> (completion out, True, s3))))"

text \<open>
  \<open>main\<close>: the \<open>finally\<close> block closes the browser when it was assigned; a throw of
  \<open>browser.close()\<close> replaces the completion of the \<open>try\<close> block.
\<close>

definition main :: "'w collaborators \<Rightarrow> json \<Rightarrow> 'w \<Rightarrow> (exn + unit) \<times> 'w state" where
  "main env data w =
     (case main_try env data (fresh w) of
        (r, browser, s) \<Rightarrow>
          (if browser
           then (case invoke Close (browser_close env) s of
                   (Inl e, s') \<Rightarrow> (Inl e, s')
                 | (Inr _, s') \<Rightarrow> (r, s'))
           else (r, s)))"

section \<open>The request handler\<close>

datatype response = Response nat json

text \<open>The response of the \<open>catch\<close> block of the handler.\<close>

definition workflow_failed :: "exn \<Rightarrow> response" where
  "workflow_failed e =
     Response 500 (JObj [(''message'', JStr ''An error occurred during the workflow.''),
                         (''error'', JStr (message_of e))])"

text \<open>
  \<open>runWorkflowHandler\<close> on the request body (\<open>None\<close> when the request carried none). The
  state returned is the one \<open>main\<close> left, or a fresh one when \<open>main\<close> was not called.
  The success message is built inside the \<open>try\<close> block, so a throw of its template
  literal reaches the \<open>catch\<close> block as well.
\<close>

definition runWorkflowHandler ::
  "'w collaborators \<Rightarrow> json option \<Rightarrow> 'w \<Rightarrow> response \<times> 'w state" where
  "runWorkflowHandler env body w =
     (case body of
        None \<Rightarrow>
          (Response 400 (JObj [(''message'',
             JStr ''Missing required fields: firstName and lastName are required.'')]), fresh w)
      | Some workflowPayload \<Rightarrow>
          (if \<not> truthy (Some workflowPayload)
              \<or> \<not> truthy (get_prop workflowPayload ''firstName'')
              \<or> \<not> truthy (get_prop workflowPayload ''lastName'')
           then (Response 400 (JObj [(''message'',
                   JStr ''Missing required fields: firstName and lastName are required.'')]), fresh w)
           else (case main env workflowPayload w of
                   (Inr _, s) \<Rightarrow>
                     (case to_string env (get_prop workflowPayload ''firstName'') of
                        Inl e \<Rightarrow> (workflow_failed e, s)
                      | Inr firstName \<Rightarrow>
                          (case to_string env (get_prop workflowPayload ''lastName'') of
                             Inl e \<Rightarrow> (workflow_failed e, s)
                           | Inr lastName \<Rightarrow>
                               (Response 200 (JObj [(''message'',
                                  JStr (''Workflow completed successfully for ''
                                        @ firstName @ '' '' @ lastName @ ''!''))]), s)))
                 | (Inl e, s) \<Rightarrow> (workflow_failed e, s))))"

section \<open>Reading a run: counts over the trace and intermediate states\<close>

fun is_close :: "event \<Rightarrow> bool" where
  "is_close (Returned Close) = True"
| "is_close (Threw Close e) = True"
| "is_close _ = False"

fun is_failure :: "event \<Rightarrow> bool" where
  "is_failure (Threw c e) = True"
| "is_failure (DispatchThrew e) = True"
| "is_failure _ = False"

fun is_enter :: "event \<Rightarrow> bool" where
  "is_enter (EnterStep i) = True"
| "is_enter _ = False"

fun is_parse_failure :: "event \<Rightarrow> bool" where
  "is_parse_failure (ParseFailed e) = True"
| "is_parse_failure _ = False"

definition close_calls :: "event list \<Rightarrow> nat" where
  "close_calls tr = length (filter is_close tr)"

definition has_failure :: "event list \<Rightarrow> bool" where
  "has_failure tr = (filter is_failure tr \<noteq> [])"

definition steps_entered :: "event list \<Rightarrow> nat" where
  "steps_entered tr = length (filter is_enter tr)"

definition parse_failures :: "event list \<Rightarrow> nat" where
  "parse_failures tr = length (filter is_parse_failure tr)"

text \<open>
  The state after a successful PERCEIVE of step \<open>i\<close> that serialized \<open>elements\<close> and
  left the world \<open>w\<close>, and the state after a successful THINK that got \<open>text\<close>.
\<close>

definition perceived :: "'w state \<Rightarrow> nat \<Rightarrow> string list \<Rightarrow> 'w \<Rightarrow> 'w state" where
  "perceived s i elements w =
     s\<lparr>world := w,
       trace := trace s @ [EnterStep i, Returned Evaluate],
       conversationHistory := conversationHistory s
         @ [\<lparr>role = User, content = currentPrompt (join newline elements)\<rparr>]\<rparr>"

definition thought :: "'w state \<Rightarrow> string \<Rightarrow> 'w \<Rightarrow> 'w state" where
  "thought s text w =
     s\<lparr>world := w,
       trace := trace s @ [Returned (GenerateText (conversationHistory s))],
       conversationHistory := conversationHistory s @ [\<lparr>role = Assistant, content = text\<rparr>]\<rparr>"

text \<open>\<open>n\<close> passes through the loop body from index \<open>i\<close>, each ending in the next iteration.\<close>

fun run_steps :: "'w collaborators \<Rightarrow> nat \<Rightarrow> nat \<Rightarrow> 'w state \<Rightarrow> 'w state option" where
  "run_steps env 0 i s = Some s"
| "run_steps env (Suc n) i s =
     (case step env i s of
        (Continue, s') \<Rightarrow> run_steps env n (i + 1) s'
      | (Return, s') \<Rightarrow> None
      | (Throw e, s') \<Rightarrow> None)"

text \<open>
  The history as the specification describes it: one system message, then for every step
  its perception as a user message and the reply as an assistant message, and after a
  reply that did not parse the corrective user message. A step is given by the snapshot,
  the reply and whether parsing failed.
\<close>

definition spec_block :: "string \<times> string \<times> bool \<Rightarrow> message list" where
  "spec_block b =
     (case b of (snapshot, reply, failed) \<Rightarrow>
        [\<lparr>role = User, content = currentPrompt snapshot\<rparr>, \<lparr>role = Assistant, content = reply\<rparr>]
        @ (if failed
           then [\<lparr>role = User, content = ''Your last response was invalid JSON. Please try again.''\<rparr>]
           else []))"

definition spec_failed :: "string \<times> string \<times> bool \<Rightarrow> bool" where
  "spec_failed b = snd (snd b)"

definition spec_history :: "string \<Rightarrow> (string \<times> string \<times> bool) list \<Rightarrow> message list" where
  "spec_history sys steps = \<lparr>role = System, content = sys\<rparr> # concat (map spec_block steps)"

text \<open>What the loop entered at index \<open>i\<close> in state \<open>s\<close> guarantees of its result.\<close>

definition loop_post :: "nat \<Rightarrow> 'w state \<Rightarrow> outcome \<Rightarrow> 'w state \<Rightarrow> bool" where
  "loop_post i s out s' =
     (close_calls (trace s') = close_calls (trace s)
      \<and> has_failure (trace s') = (has_failure (trace s) \<or> (\<exists>e. out = Aborted e))
      \<and> steps_entered (trace s') \<le> steps_entered (trace s) + (maxSteps - i)
      \<and> prefix (conversationHistory s) (conversationHistory s')
      \<and> (out = Finished \<or> out = Exhausted \<longrightarrow>
           length (conversationHistory s') + 2 * steps_entered (trace s) + parse_failures (trace s)
             = length (conversationHistory s) + 2 * steps_entered (trace s')
               + parse_failures (trace s'))
      \<and> (out = Finished \<or> out = Exhausted \<longrightarrow>
           (\<exists>steps. conversationHistory s' = conversationHistory s @ concat (map spec_block steps)
              \<and> length steps + steps_entered (trace s) = steps_entered (trace s')
              \<and> length (filter spec_failed steps) + parse_failures (trace s)
                  = parse_failures (trace s'))))"

text \<open>The same for the \<open>try\<close> block of \<open>main\<close> started in a fresh state.\<close>

definition try_post ::
  "'w collaborators \<Rightarrow> json \<Rightarrow> 'w \<Rightarrow> exn + unit \<Rightarrow> bool \<Rightarrow> 'w state \<Rightarrow> bool" where
  "try_post env data w r b s' =
     (close_calls (trace s') = 0
      \<and> has_failure (trace s') = (\<exists>e. r = Inl e)
      \<and> steps_entered (trace s') \<le> maxSteps
      \<and> b = (\<exists>u w1. chromium_launch env w = (Inr u, w1))
      \<and> (r = Inr () \<longrightarrow>
           length (conversationHistory s')
             = 1 + 2 * steps_entered (trace s') + parse_failures (trace s'))
      \<and> (r = Inr () \<longrightarrow>
           (\<exists>steps. conversationHistory s' = spec_history (systemPrompt env data) steps
              \<and> length steps = steps_entered (trace s')
              \<and> length (filter spec_failed steps) = parse_failures (trace s'))))"

section \<open>The specification's wording\<close>

text \<open>
  The line format with the value and the label left open, and the descriptions the
  specification gives in words: a balanced brace-delimited substring, the value field of
  an element, the order in which its label is resolved, and the lines of a text.
\<close>

definition element_line :: "element \<Rightarrow> string \<Rightarrow> string \<Rightarrow> string" where
  \<open>element_line el val label =
     ''<'' @ toLowerCase (tagName el)
     @ '' type="'' @ or_empty (getAttribute el ''type'')
     @ ''" name="'' @ or_empty (getAttribute el ''name'')
     @ ''" value="'' @ val @ ''">'' @ label
     @ ''</'' @ toLowerCase (tagName el) @ ''>''\<close>

fun spec_depth :: "nat \<Rightarrow> string \<Rightarrow> bool" where
  "spec_depth d [] = (d = 0)"
| "spec_depth d (c # cs) =
     (if d = 0 then False
      else if c = CHR ''{'' then spec_depth (d + 1) cs
      else if c = CHR ''}'' then spec_depth (d - 1) cs
      else spec_depth d cs)"

definition spec_balanced :: "string \<Rightarrow> bool" where
  "spec_balanced j = (case j of [] \<Rightarrow> False | c # cs \<Rightarrow> c = CHR ''{'' \<and> spec_depth 1 cs)"

definition spec_value :: "element \<Rightarrow> string" where
  "spec_value el =
     (if toLowerCase (tagName el) = ''input'' \<or> toLowerCase (tagName el) = ''textarea''
      then elem_value el
      else if toLowerCase (tagName el) = ''select''
      then (case selectedOption el of Some opt \<Rightarrow> option_text opt | None \<Rightarrow> [])
      else [])"


text \<open>The lines of a text: the pieces between its line breaks.\<close>

fun spec_lines :: "string \<Rightarrow> string list" where
  "spec_lines [] = [[]]"
| "spec_lines (c # cs) =
     (if c = CHR 0x0A then [] # spec_lines cs
      else (case spec_lines cs of [] \<Rightarrow> [[c]] | l # ls \<Rightarrow> (c # l) # ls))"

section \<open>A sample page and sample collaborators\<close>

definition demo_label :: "string \<Rightarrow> string \<Rightarrow> element" where
  "demo_label target t =
     \<lparr>tagName = ''LABEL'', elem_id = [], getAttribute = [''for'' \<mapsto> target], elem_value = [],
      options = [], selectedIndex = -1, textContent = Some t\<rparr>"

definition demo_input :: element where
  "demo_input =
     \<lparr>tagName = ''INPUT'', elem_id = ''firstName'',
      getAttribute = [''name'' \<mapsto> ''firstName'', ''type'' \<mapsto> ''text''],
      elem_value = ''Ann'', options = [], selectedIndex = -1, textContent = Some []\<rparr>"

definition demo_select :: element where
  "demo_select =
     \<lparr>tagName = ''SELECT'', elem_id = ''gender'',
      getAttribute = [''name'' \<mapsto> ''gender''],
      elem_value = ''o'',
      options = [\<lparr>option_text = ''Male'', option_value = ''m''\<rparr>,
                 \<lparr>option_text = ''Other'', option_value = ''o''\<rparr>],
      selectedIndex = 1, textContent = Some ''MaleOther''\<rparr>"

definition demo_button :: element where
  "demo_button =
     \<lparr>tagName = ''BUTTON'', elem_id = [],
      getAttribute = [''type'' \<mapsto> ''submit''],
      elem_value = [], options = [], selectedIndex = -1, textContent = Some '' Submit ''\<rparr>"

definition demo_document :: document where
  \<open>demo_document =
     \<lparr>querySelectorAll =
        (\<lambda>sel. if sel = interactive_selector then [demo_input, demo_select, demo_button] else []),
      labels = [demo_label ''firstName'' ''First Name'', demo_label ''gender'' '' Gender ''],
      querySelector = (\<lambda>sel. Inr None)\<rparr>\<close>

text \<open>
  A page with one text area whose value holds a line break, and two buttons whose ids
  hold a double quote, on a page with a label for another id. On the selector built from
  the first id, \<open>label[for="a"],label[for="b"]\<close>, the engine finds the label for
  \<open>b\<close>; the selector built from the second, \<open>label[for="a""]\<close>, is malformed and the
  engine throws.
\<close>

definition multiline_textarea :: element where
  "multiline_textarea =
     \<lparr>tagName = ''TEXTAREA'', elem_id = ''notes'',
      getAttribute = [''name'' \<mapsto> ''notes''],
      elem_value = ''penicillin'' @ [CHR 0x0A] @ ''latex'',
      options = [], selectedIndex = -1, textContent = Some []\<rparr>"

definition multiline_document :: document where
  "multiline_document =
     \<lparr>querySelectorAll = (\<lambda>sel. if sel = interactive_selector then [multiline_textarea] else []),
      labels = [],
      querySelector = (\<lambda>sel. Inr None)\<rparr>"




text \<open>
  \<open>demo_parse\<close> answers as \<open>JSON.parse\<close> does on the texts the examples below use: four
  objects, and a syntax error on anything else.
\<close>

definition demo_parse :: "string \<Rightarrow> exn + json" where
  \<open>demo_parse t =
     (if t = ''{"action":"finish"}'' then Inr (JObj [(''action'', JStr ''finish'')])
      else if t = ''{"action":"fill","label":"First Name","value":"Ann"}''
      then Inr (JObj [(''action'', JStr ''fill''), (''label'', JStr ''First Name''),
                      (''value'', JStr ''Ann'')])
      else if t = ''{"action":"dance"}'' then Inr (JObj [(''action'', JStr ''dance'')])
      else if t = ''{"action":{"toString":1}}''
      then Inr (JObj [(''action'', JObj [(''toString'', JNum 1)])])
      else Inl (Error ''Unexpected token''))\<close>

text \<open>
  The world of the sample collaborators counts the model calls; the model answers with
  the replies in turn and fails when they are used up. The browser calls succeed unless
  \<open>launch_ok\<close> is false, in which case the launch fails. No example writes a number.
\<close>

definition demo_env :: "bool \<Rightarrow> string list \<Rightarrow> nat collaborators" where
  "demo_env launch_ok replies =
     \<lparr>chromium_launch = (\<lambda>w. (if launch_ok then Inr () else Inl (Error ''launch failed''), w)),
      browser_newPage = (\<lambda>w. (Inr (), w)),
      page_goto = (\<lambda>url w. (Inr (), w)),
      page_document = (\<lambda>w. (Inr demo_document, w)),
      generateText = (\<lambda>messages w.
         (if w < length replies then Inr (replies ! w) else Inl (Error ''model unavailable''),
          Suc w)),
      JSON_parse = demo_parse,
      JSON_stringify = (\<lambda>data. ''{}''),
      number_to_string = (\<lambda>n. []),
      getByLabel_fill = (\<lambda>label v w. (Inr (), w)),
      getByRole_click = (\<lambda>r name w. (Inr (), w)),
      getByLabel_selectOption = (\<lambda>label v w. (Inr (), w)),
      page_waitForTimeout = (\<lambda>ms w. (Inr (), w)),
      browser_close = (\<lambda>w. (Inr (), w))\<rparr>"

definition demo_lines :: "string list" where
  \<open>demo_lines =
     [''<input type="text" name="firstName" value="Ann">First Name</input>'',
      ''<select type="" name="gender" value="Other">Gender</select>'',
      ''<button type="submit" name="" value="">Submit</button>'']\<close>

text \<open>Replies of the model used in the examples.\<close>

definition finish_reply :: string where
  \<open>finish_reply = ''Sure, the form is done: {"action":"finish"} Goodbye.''\<close>

definition prose_reply :: string where
  "prose_reply = ''I will fill in the first name next.''"

definition dance_reply :: string where
  \<open>dance_reply = ''{"action":"dance"}''\<close>

definition unprintable_reply :: string where
  \<open>unprintable_reply = ''{"action":{"toString":1}}''\<close>

definition two_objects_reply :: string where
  \<open>two_objects_reply = ''{"action":"finish"} (see {notes})''\<close>

definition two_objects_match :: string where
  \<open>two_objects_match = ''{"action":"finish"} (see {notes}''\<close>

text \<open>The sample collaborators on the page with the text area.\<close>

definition multiline_env :: "nat collaborators" where
  "multiline_env = (demo_env True [])\<lparr>page_document := (\<lambda>w. (Inr multiline_document, w))\<rparr>"

definition multiline_snapshot :: string where
  \<open>multiline_snapshot =
     ''<textarea type="" name="notes" value="penicillin'' @ [CHR 0x0A] @ ''latex"></textarea>''\<close>

text \<open>The response of the handler to a request without its required fields.\<close>

definition missing_fields :: response where
  "missing_fields = Response 400 (JObj [(''message'',
     JStr ''Missing required fields: firstName and lastName are required.'')])"

section \<open>How the trace and the history grow\<close>

text \<open>
  Each function only appends to the trace and to the history. The lemmas below say what a
  call, a pass through the loop body, the loop and \<open>main\<close> add.
\<close>

lemma invoke_shape:
  "invoke c f s = (r, s') \<Longrightarrow>
     conversationHistory s' = conversationHistory s \<and>
     (case r of Inl e \<Rightarrow> trace s' = trace s @ [Threw c e]
              | Inr a \<Rightarrow> trace s' = trace s @ [Returned c])"
  by (auto simp: invoke_def log_event_def split: prod.splits sum.splits)

lemma getSerializedPage_shape:
  "getSerializedPage env s = (r, s') \<Longrightarrow>
     conversationHistory s' = conversationHistory s \<and>
     (case r of Inl e \<Rightarrow> trace s' = trace s @ [Threw Evaluate e]
              | Inr a \<Rightarrow> trace s' = trace s @ [Returned Evaluate])"
  by (auto simp: getSerializedPage_def split: prod.splits sum.splits dest!: invoke_shape)

lemma createSession_shape:
  "createSession env url s = (r, s') \<Longrightarrow>
     conversationHistory s' = conversationHistory s \<and>
     (case r of
        Inl e \<Rightarrow> trace s' = trace s @ [Threw NewPage e]
                 \<or> trace s' = trace s @ [Returned NewPage, Threw (Goto url) e]
      | Inr a \<Rightarrow> trace s' = trace s @ [Returned NewPage, Returned (Goto url)])"
  by (auto simp: createSession_def split: prod.splits sum.splits dest!: invoke_shape)

lemma dispatch_shape:
  "dispatch env action s = (sig, s') \<Longrightarrow>
     conversationHistory s' = conversationHistory s \<and>
     (\<exists>evs. trace s' = trace s @ evs \<and> filter is_close evs = [] \<and> filter is_enter evs = []
        \<and> filter is_parse_failure evs = []
        \<and> ((filter is_failure evs \<noteq> []) = (\<exists>e. sig = Throw e)))"
  unfolding dispatch_def Let_def
  by (auto simp: log_event_def split: if_splits prod.splits sum.splits dest!: invoke_shape)

lemma step_shape:
  "step env i s = (sig, s') \<Longrightarrow>
     \<exists>evs msgs. trace s' = trace s @ EnterStep i # evs
       \<and> conversationHistory s' = conversationHistory s @ msgs
       \<and> filter is_close evs = [] \<and> filter is_enter evs = []
       \<and> ((filter is_failure evs \<noteq> []) = (\<exists>e. sig = Throw e))
       \<and> (sig = Continue \<or> sig = Return \<longrightarrow>
            length msgs = 2 + length (filter is_parse_failure evs))"
  unfolding step_def Let_def
  apply (clarsimp split: prod.splits sum.splits)
     apply (drule getSerializedPage_shape, simp add: log_event_def)
    apply (drule getSerializedPage_shape, drule invoke_shape, simp add: log_event_def push_def)
   apply (drule getSerializedPage_shape, drule invoke_shape, simp add: log_event_def push_def)
  apply (drule getSerializedPage_shape, drule invoke_shape, drule dispatch_shape)
  apply (auto simp add: log_event_def push_def)
  done

lemma step_close:
  "step env i s = (sig, s') \<Longrightarrow> close_calls (trace s') = close_calls (trace s)"
  by (drule step_shape) (auto simp: close_calls_def)

lemma step_failure:
  "step env i s = (sig, s') \<Longrightarrow>
     has_failure (trace s') = (has_failure (trace s) \<or> (\<exists>e. sig = Throw e))"
  by (drule step_shape) (auto simp: has_failure_def)

lemma step_entered:
  "step env i s = (sig, s') \<Longrightarrow> steps_entered (trace s') = Suc (steps_entered (trace s))"
  by (drule step_shape) (auto simp: steps_entered_def)

lemma step_prefix:
  "step env i s = (sig, s') \<Longrightarrow> prefix (conversationHistory s) (conversationHistory s')"
  by (drule step_shape) auto

lemma step_length:
  "step env i s = (sig, s') \<Longrightarrow> sig = Continue \<or> sig = Return \<Longrightarrow>
     length (conversationHistory s') + parse_failures (trace s)
       = length (conversationHistory s) + 2 + parse_failures (trace s')"
  by (drule step_shape) (auto simp: parse_failures_def)

lemma step_block:
  assumes st: "step env i s = (sig, s')" and ok: "sig = Continue \<or> sig = Return"
  shows "\<exists>b. conversationHistory s' = conversationHistory s @ spec_block b
           \<and> parse_failures (trace s') = parse_failures (trace s) + length (filter spec_failed [b])"
proof -
  obtain r1 s1 where g: "getSerializedPage env (log_event (EnterStep i) s) = (r1, s1)"
    by (cases "getSerializedPage env (log_event (EnterStep i) s)")
  note gs = getSerializedPage_shape [OF g]
  show ?thesis
  proof (cases r1)
    case (Inl e)
    with st g ok show ?thesis by (auto simp: step_def)
  next
    case (Inr snapshot)
    let ?s2 = "push \<lparr>role = User, content = currentPrompt snapshot\<rparr> s1"
    obtain r3 s3 where t: "invoke (GenerateText (conversationHistory ?s2))
        (generateText env (conversationHistory ?s2)) ?s2 = (r3, s3)"
      by (cases "invoke (GenerateText (conversationHistory ?s2))
        (generateText env (conversationHistory ?s2)) ?s2")
    note ts = invoke_shape [OF t]
    show ?thesis
    proof (cases r3)
      case (Inl e)
      with st g \<open>r1 = Inr snapshot\<close> t ok show ?thesis by (auto simp: step_def Let_def)
    next
      case (Inr reply)
      let ?s4 = "push \<lparr>role = Assistant, content = reply\<rparr> s3"
      have h4: "conversationHistory ?s4 = conversationHistory s
          @ [\<lparr>role = User, content = currentPrompt snapshot\<rparr>, \<lparr>role = Assistant, content = reply\<rparr>]"
        using gs ts \<open>r1 = Inr snapshot\<close> Inr by (simp add: push_def log_event_def)
      have t4: "parse_failures (trace ?s4) = parse_failures (trace s)"
        using gs ts \<open>r1 = Inr snapshot\<close> Inr
        by (simp add: push_def log_event_def parse_failures_def)
      show ?thesis
      proof (cases "parseAction env reply")
        case (Inl e)
        with st g \<open>r1 = Inr snapshot\<close> t \<open>r3 = Inr reply\<close>
        have "s' = push correction (log_event (ParseFailed e) ?s4)"
          by (simp add: step_def Let_def)
        with h4 t4 have "conversationHistory s' = conversationHistory s @ spec_block (snapshot, reply, True)
           \<and> parse_failures (trace s') = parse_failures (trace s)
               + length (filter spec_failed [(snapshot, reply, True)])"
          by (simp add: push_def log_event_def spec_block_def spec_failed_def correction_def
              parse_failures_def)
        then show ?thesis by blast
      next
        case (Inr action)
        with st g \<open>r1 = Inr snapshot\<close> t \<open>r3 = Inr reply\<close>
        have d: "dispatch env action ?s4 = (sig, s')"
          by (simp add: step_def Let_def)
        from dispatch_shape [OF d] ok obtain evs
          where "conversationHistory s' = conversationHistory ?s4"
            and "trace s' = trace ?s4 @ evs" and "filter is_parse_failure evs = []"
          by blast
        with h4 t4 have "conversationHistory s' = conversationHistory s @ spec_block (snapshot, reply, False)
           \<and> parse_failures (trace s') = parse_failures (trace s)
               + length (filter spec_failed [(snapshot, reply, False)])"
          by (simp add: spec_block_def spec_failed_def parse_failures_def)
        then show ?thesis by blast
      qed
    qed
  qed
qed

lemma step_collapse: "step env i s = (fst (step env i s), snd (step env i s))"
  by simp

lemma loop_unfold:
  "loop env i s =
     (if i < maxSteps
      then (case step env i s of
              (Continue, s') \<Rightarrow> loop env (i + 1) s'
            | (Return, s') \<Rightarrow> (Finished, s')
            | (Throw e, s') \<Rightarrow> (Aborted e, s'))
      else (Exhausted, s))"
  by (rule loop.simps)

lemma loop_exhausted: "loop env maxSteps s = (Exhausted, s)"
  by (simp add: loop_unfold [of env maxSteps s])

lemma loop_continue:
  "i < maxSteps \<Longrightarrow> step env i s = (Continue, s') \<Longrightarrow> loop env i s = loop env (i + 1) s'"
  by (simp add: loop_unfold [of env i s])

lemma loop_post_step:
  assumes st: "step env i s = (sig, s1)" and lt: "i < maxSteps"
    and rest: "sig = Continue \<Longrightarrow> loop_post (i + 1) s1 out s'"
    and fin: "sig = Return \<Longrightarrow> out = Finished \<and> s' = s1"
    and thr: "\<And>e. sig = Throw e \<Longrightarrow> out = Aborted e \<and> s' = s1"
  shows "loop_post i s out s'"
proof (cases sig)
  case Continue
  note r = rest [OF Continue, unfolded loop_post_def]
  from step_block [OF st] Continue obtain b
    where hb: "conversationHistory s1 = conversationHistory s @ spec_block b"
      and pb: "parse_failures (trace s1) = parse_failures (trace s) + length (filter spec_failed [b])"
    by blast
  have blocks: "\<exists>steps. conversationHistory s' = conversationHistory s @ concat (map spec_block steps)
      \<and> length steps + steps_entered (trace s) = steps_entered (trace s')
      \<and> length (filter spec_failed steps) + parse_failures (trace s) = parse_failures (trace s')"
    if o: "out = Finished \<or> out = Exhausted"
  proof -
    from r o obtain steps
      where h: "conversationHistory s' = conversationHistory s1 @ concat (map spec_block steps)"
        and n: "length steps + steps_entered (trace s1) = steps_entered (trace s')"
        and f: "length (filter spec_failed steps) + parse_failures (trace s1)
                 = parse_failures (trace s')"
      by blast
    from h hb have "conversationHistory s'
        = conversationHistory s @ concat (map spec_block (b # steps))" by simp
    moreover from n step_entered [OF st]
    have "length (b # steps) + steps_entered (trace s) = steps_entered (trace s')" by simp
    moreover from f pb
    have "length (filter spec_failed (b # steps)) + parse_failures (trace s)
            = parse_failures (trace s')" by (cases "spec_failed b") simp_all
    ultimately show ?thesis by blast
  qed
  from r step_close [OF st] step_failure [OF st] step_entered [OF st]
    step_prefix [OF st] step_length [OF st] Continue lt blocks
  show ?thesis
    unfolding loop_post_def by (auto elim: prefix_order.trans)
next
  case Return
  from step_block [OF st] Return obtain b
    where hb: "conversationHistory s1 = conversationHistory s @ spec_block b"
      and pb: "parse_failures (trace s1) = parse_failures (trace s) + length (filter spec_failed [b])"
    by blast
  from fin [OF Return] have eq: "out = Finished" "s' = s1" by simp_all
  have "conversationHistory s' = conversationHistory s @ concat (map spec_block [b])
      \<and> length [b] + steps_entered (trace s) = steps_entered (trace s')
      \<and> length (filter spec_failed [b]) + parse_failures (trace s) = parse_failures (trace s')"
    using hb pb eq step_entered [OF st] by (cases "spec_failed b") simp_all
  then have blocks: "\<exists>steps. conversationHistory s' = conversationHistory s @ concat (map spec_block steps)
      \<and> length steps + steps_entered (trace s) = steps_entered (trace s')
      \<and> length (filter spec_failed steps) + parse_failures (trace s) = parse_failures (trace s')"
    by blast
  from eq step_close [OF st] step_failure [OF st] step_entered [OF st]
    step_prefix [OF st] step_length [OF st] Return lt blocks
  show ?thesis
    unfolding loop_post_def by auto
next
  case (Throw e)
  from thr [OF Throw] step_close [OF st] step_failure [OF st] step_entered [OF st]
    step_prefix [OF st] Throw lt
  show ?thesis
    unfolding loop_post_def by auto
qed

lemma loop_shape: "loop env i s = (out, s') \<Longrightarrow> loop_post i s out s'"
proof (induction env i s arbitrary: out s' rule: loop.induct)
  case (1 env i s)
  show ?case
  proof (cases "i < maxSteps")
    case False
    with "1.prems" have "out = Exhausted" "s' = s"
      by (simp_all add: loop_unfold [of env i s])
    moreover have "\<exists>steps :: (string \<times> string \<times> bool) list.
        conversationHistory s = conversationHistory s @ concat (map spec_block steps)
        \<and> length steps + steps_entered (trace s) = steps_entered (trace s)
        \<and> length (filter spec_failed steps) + parse_failures (trace s) = parse_failures (trace s)"
      by (rule exI [of _ "[]"]) simp
    ultimately show ?thesis by (simp add: loop_post_def)
  next
    case True
    obtain sig s1 where st: "step env i s = (sig, s1)" by (cases "step env i s")
    show ?thesis
    proof (rule loop_post_step [OF st True])
      assume c: "sig = Continue"
      with True st "1.prems" have "loop env (i + 1) s1 = (out, s')"
        by (simp add: loop_unfold [of env i s])
      with "1.IH" [OF True st [symmetric] c] show "loop_post (i + 1) s1 out s'" by simp
    next
      assume "sig = Return"
      with True st "1.prems" show "out = Finished \<and> s' = s1"
        by (simp add: loop_unfold [of env i s])
    next
      fix e assume "sig = Throw e"
      with True st "1.prems" show "out = Aborted e \<and> s' = s1"
        by (simp add: loop_unfold [of env i s])
    qed
  qed
qed

lemma run_steps_shape:
  "run_steps env n i s = Some s' \<Longrightarrow>
     prefix (conversationHistory s) (conversationHistory s')
     \<and> length (conversationHistory s') + parse_failures (trace s)
         = length (conversationHistory s) + 2 * n + parse_failures (trace s')
     \<and> steps_entered (trace s') = steps_entered (trace s) + n"
proof (induction n arbitrary: i s)
  case 0
  then show ?case by simp
next
  case (Suc n)
  obtain sig s1 where st: "step env i s = (sig, s1)" by (cases "step env i s")
  with Suc.prems have c: "sig = Continue" and r: "run_steps env n (i + 1) s1 = Some s'"
    by (cases sig; simp)+
  from Suc.IH [OF r] step_prefix [OF st] step_length [OF st] step_entered [OF st] c
  show ?case by (auto elim: prefix_order.trans)
qed

lemma loop_run_steps:
  "run_steps env n i s = Some s' \<Longrightarrow> i + n \<le> maxSteps \<Longrightarrow> loop env i s = loop env (i + n) s'"
proof (induction n arbitrary: i s)
  case 0
  then show ?case by simp
next
  case (Suc n)
  obtain sig s1 where st: "step env i s = (sig, s1)" by (cases "step env i s")
  with Suc.prems have c: "sig = Continue" and r: "run_steps env n (i + 1) s1 = Some s'"
    by (cases sig; simp)+
  from Suc.prems have lt: "i < maxSteps" and le: "(i + 1) + n \<le> maxSteps" by simp_all
  from loop_continue [OF lt st [unfolded c]] Suc.IH [OF r le]
  show ?case by simp
qed

lemma fresh_simps [simp]:
  "world (fresh w) = w" "trace (fresh w) = []" "conversationHistory (fresh w) = []"
  by (simp_all add: fresh_def)

lemma init_history_simps [simp]:
  "world (init_history env data s) = world s"
  "trace (init_history env data s) = trace s"
  "conversationHistory (init_history env data s) = [\<lparr>role = System, content = systemPrompt env data\<rparr>]"
  by (simp_all add: init_history_def)

lemma completion_Inr: "(completion out = Inr u) = (out = Finished \<or> out = Exhausted)"
  by (cases out) auto

lemma main_try_shape:
  assumes m: "main_try env data (fresh w) = (r, b, s')"
  shows "try_post env data w r b s'"
proof -
  obtain rl s1 where l: "invoke Launch (chromium_launch env) (fresh w) = (rl, s1)"
    by (cases "invoke Launch (chromium_launch env) (fresh w)")
  note ls = invoke_shape [OF l]
  show ?thesis
  proof (cases rl)
    case (Inl e)
    with l m have "r = Inl e" "b = False" "s' = s1" by (simp_all add: main_try_def)
    moreover from l Inl have "\<not> (\<exists>u w1. chromium_launch env w = (Inr u, w1))"
      by (auto simp: invoke_def split: prod.splits sum.splits)
    ultimately show ?thesis using ls Inl
      by (simp add: try_post_def close_calls_def has_failure_def steps_entered_def)
  next
    case (Inr u)
    from l Inr have lok: "\<exists>u w1. chromium_launch env w = (Inr u, w1)"
      by (auto simp: invoke_def split: prod.splits sum.splits)
    from ls Inr have t1: "trace s1 = [Returned Launch]" by simp
    obtain rc s2 where c: "createSession env target_url s1 = (rc, s2)"
      by (cases "createSession env target_url s1")
    note cs = createSession_shape [OF c]
    show ?thesis
    proof (cases rc)
      case (Inl e)
      with l Inr c m have "r = Inl e" "b = True" "s' = s2" by (simp_all add: main_try_def)
      then show ?thesis using cs Inl t1 lok
        by (auto simp: try_post_def close_calls_def has_failure_def steps_entered_def)
    next
      case (Inr v)
      from cs Inr t1 have t2: "trace s2 = [Returned Launch, Returned NewPage, Returned (Goto target_url)]"
        by simp
      obtain out s3 where lp: "loop env 0 (init_history env data s2) = (out, s3)"
        by (cases "loop env 0 (init_history env data s2)")
      from l \<open>rl = Inr u\<close> c Inr lp m have res: "r = completion out" "b = True" "s' = s3"
        by (simp_all add: main_try_def)
      from loop_shape [OF lp] t2
      have p: "close_calls (trace s3) = 0"
        "has_failure (trace s3) = (\<exists>e. out = Aborted e)"
        "steps_entered (trace s3) \<le> maxSteps"
        "out = Finished \<or> out = Exhausted \<longrightarrow>
           length (conversationHistory s3) = 1 + 2 * steps_entered (trace s3) + parse_failures (trace s3)"
        by (simp_all add: loop_post_def close_calls_def has_failure_def steps_entered_def
            parse_failures_def)
      from loop_shape [OF lp, unfolded loop_post_def] t2
      have q: "out = Finished \<or> out = Exhausted \<longrightarrow>
           (\<exists>steps. conversationHistory s3 = spec_history (systemPrompt env data) steps
              \<and> length steps = steps_entered (trace s3)
              \<and> length (filter spec_failed steps) = parse_failures (trace s3))"
        by (auto simp: spec_history_def steps_entered_def parse_failures_def)
      show ?thesis using res p q lok
        by (cases out) (simp_all add: try_post_def)
    qed
  qed
qed

lemma main_collapse: "main env data w = (fst (main env data w), snd (main env data w))"
  by simp

lemma main_shape:
  assumes m: "main env data w = (r, s')"
  shows "has_failure (trace s') = (\<exists>e. r = Inl e)"
    and "steps_entered (trace s') \<le> maxSteps"
    and "close_calls (trace s') = (if \<exists>u w1. chromium_launch env w = (Inr u, w1) then 1 else 0)"
    and "r = Inr () \<longrightarrow>
           length (conversationHistory s')
             = 1 + 2 * steps_entered (trace s') + parse_failures (trace s')"
    and "r = Inr () \<longrightarrow>
           (\<exists>steps. conversationHistory s' = spec_history (systemPrompt env data) steps
              \<and> length steps = steps_entered (trace s')
              \<and> length (filter spec_failed steps) = parse_failures (trace s'))"
proof -
  obtain r0 b s0 where t: "main_try env data (fresh w) = (r0, b, s0)"
    by (cases "main_try env data (fresh w)")
  note tp = main_try_shape [OF t, unfolded try_post_def]
  have "has_failure (trace s') = (\<exists>e. r = Inl e)
    \<and> steps_entered (trace s') \<le> maxSteps
    \<and> close_calls (trace s') = (if \<exists>u w1. chromium_launch env w = (Inr u, w1) then 1 else 0)
    \<and> (r = Inr () \<longrightarrow>
           length (conversationHistory s')
             = 1 + 2 * steps_entered (trace s') + parse_failures (trace s'))
    \<and> (r = Inr () \<longrightarrow>
           (\<exists>steps. conversationHistory s' = spec_history (systemPrompt env data) steps
              \<and> length steps = steps_entered (trace s')
              \<and> length (filter spec_failed steps) = parse_failures (trace s')))"
  proof (cases b)
    case False
    with t m have "r = r0" "s' = s0" by (simp_all add: main_def)
    with tp False show ?thesis by simp
  next
    case True
    obtain rc s1 where c: "invoke Close (browser_close env) s0 = (rc, s1)"
      by (cases "invoke Close (browser_close env) s0")
    note cs = invoke_shape [OF c]
    show ?thesis
    proof (cases rc)
      case (Inl e)
      with t m True c have "r = Inl e" "s' = s1" by (simp_all add: main_def)
      with tp True cs Inl show ?thesis
        by (simp add: close_calls_def has_failure_def steps_entered_def parse_failures_def)
    next
      case (Inr u)
      with t m True c have "r = r0" "s' = s1" by (simp_all add: main_def)
      with tp True cs Inr show ?thesis
        by (simp add: close_calls_def has_failure_def steps_entered_def parse_failures_def)
    qed
  qed
  then show "has_failure (trace s') = (\<exists>e. r = Inl e)"
    and "steps_entered (trace s') \<le> maxSteps"
    and "close_calls (trace s') = (if \<exists>u w1. chromium_launch env w = (Inr u, w1) then 1 else 0)"
    and "r = Inr () \<longrightarrow>
           length (conversationHistory s')
             = 1 + 2 * steps_entered (trace s') + parse_failures (trace s')"
    and "r = Inr () \<longrightarrow>
           (\<exists>steps. conversationHistory s' = spec_history (systemPrompt env data) steps
              \<and> length steps = steps_entered (trace s')
              \<and> length (filter spec_failed steps) = parse_failures (trace s'))"
    by simp_all
qed


lemma log_event_simps [simp]:
  "world (log_event ev s) = world s"
  "trace (log_event ev s) = trace s @ [ev]"
  "conversationHistory (log_event ev s) = conversationHistory s"
  by (simp_all add: log_event_def)

lemma push_simps [simp]:
  "world (push m s) = world s"
  "trace (push m s) = trace s"
  "conversationHistory (push m s) = conversationHistory s @ [m]"
  by (simp_all add: push_def)

lemma perceived_simps [simp]:
  "world (perceived s i elements w) = w"
  "trace (perceived s i elements w) = trace s @ [EnterStep i, Returned Evaluate]"
  "conversationHistory (perceived s i elements w) =
     conversationHistory s @ [\<lparr>role = User, content = currentPrompt (join newline elements)\<rparr>]"
  by (simp_all add: perceived_def)

lemma thought_simps [simp]:
  "world (thought s text w) = w"
  "trace (thought s text w) = trace s @ [Returned (GenerateText (conversationHistory s))]"
  "conversationHistory (thought s text w) =
     conversationHistory s @ [\<lparr>role = Assistant, content = text\<rparr>]"
  by (simp_all add: thought_def)

lemma step_think:
  assumes "page_evaluate env serializeElements (world s) = (Inr elements, w1)"
    and "generateText env (conversationHistory (perceived s i elements w1)) w1 = (Inr text, w2)"
  shows "step env i s =
     (case parseAction env text of
        Inl e \<Rightarrow> (Continue, push correction
                     (log_event (ParseFailed e) (thought (perceived s i elements w1) text w2)))
      | Inr action \<Rightarrow> dispatch env action (thought (perceived s i elements w1) text w2))"
  using assms
  by (simp add: step_def getSerializedPage_def invoke_def perceived_def thought_def
      push_def log_event_def Let_def split: sum.splits)

lemma dispatch_collapse: "dispatch env action s = (fst (dispatch env action s), snd (dispatch env action s))"
  by simp

lemma dispatch_unknown:
  assumes "action \<noteq> JNull"
    and "get_prop action ''action'' \<notin>
       {Some (JStr ''fill''), Some (JStr ''click''), Some (JStr ''select''), Some (JStr ''finish'')}"
  shows "dispatch env action s =
     (case to_string env (get_prop action ''action'') of
        Inl e \<Rightarrow> (Throw e, log_event (DispatchThrew e) s)
      | Inr t \<Rightarrow> (Continue, s))"
  using assms by (simp add: dispatch_def)

lemma step_think_history:
  assumes e: "page_evaluate env serializeElements (world s) = (Inr elements, w1)"
    and g: "generateText env
        (conversationHistory s @ [\<lparr>role = User, content = currentPrompt (join newline elements)\<rparr>]) w1
         = (Inr text, w2)"
  shows "conversationHistory (snd (step env i s))
     = conversationHistory s
       @ spec_block (join newline elements, text, \<exists>e. parseAction env text = Inl e)"
proof -
  from g have g': "generateText env (conversationHistory (perceived s i elements w1)) w1 = (Inr text, w2)"
    by simp
  note st = step_think [OF e g']
  show ?thesis
  proof (cases "parseAction env text")
    case (Inl err)
    with st show ?thesis by (simp add: spec_block_def correction_def)
  next
    case (Inr action)
    from dispatch_shape [OF dispatch_collapse]
    have "conversationHistory (snd (dispatch env action (thought (perceived s i elements w1) text w2)))
        = conversationHistory (thought (perceived s i elements w1) text w2)"
      by blast
    with Inr st show ?thesis by (simp add: spec_block_def)
  qed
qed

lemma run_steps_blocks:
  "run_steps env n i s = Some s' \<Longrightarrow>
     \<exists>steps. length steps = n
       \<and> conversationHistory s' = conversationHistory s @ concat (map spec_block steps)
       \<and> length (filter spec_failed steps) + parse_failures (trace s) = parse_failures (trace s')"
proof (induction n arbitrary: i s)
  case 0
  then show ?case by simp
next
  case (Suc n)
  obtain sig s1 where st: "step env i s = (sig, s1)" by (cases "step env i s")
  with Suc.prems have c: "sig = Continue" and r: "run_steps env n (i + 1) s1 = Some s'"
    by (cases sig; simp)+
  from step_block [OF st] c obtain b
    where b: "conversationHistory s1 = conversationHistory s @ spec_block b"
      and pb: "parse_failures (trace s1) = parse_failures (trace s) + length (filter spec_failed [b])"
    by blast
  from Suc.IH [OF r] obtain steps
    where l: "length steps = n"
      and h: "conversationHistory s' = conversationHistory s1 @ concat (map spec_block steps)"
      and p: "length (filter spec_failed steps) + parse_failures (trace s1) = parse_failures (trace s')"
    by blast
  have "length (b # steps) = Suc n
       \<and> conversationHistory s' = conversationHistory s @ concat (map spec_block (b # steps))
       \<and> length (filter spec_failed (b # steps)) + parse_failures (trace s) = parse_failures (trace s')"
    using l h p b pb by (cases "spec_failed b") simp_all
  then show ?case by blast
qed

lemma spec_history_length:
  "length (spec_history sys steps) = 1 + 2 * length steps + length (filter spec_failed steps)"
  by (induction steps) (auto simp: spec_history_def spec_block_def spec_failed_def)

section \<open>What the pattern matches\<close>

lemma jsonMatch_between:
  assumes pre: "CHR ''{'' \<notin> set pre" and post: "CHR ''}'' \<notin> set post"
  shows "jsonMatch (pre @ CHR ''{'' # body @ CHR ''}'' # post) = Some (CHR ''{'' # body @ [CHR ''}''])"
proof -
  have d1: "dropWhile (\<lambda>c. c \<noteq> CHR ''{'') (pre @ CHR ''{'' # body @ CHR ''}'' # post)
            = CHR ''{'' # body @ CHR ''}'' # post"
    using pre by (induction pre) auto
  have d2: "dropWhile (\<lambda>c. c \<noteq> CHR ''}'') (rev post @ CHR ''}'' # rev body) = CHR ''}'' # rev body"
    using post by (induction post rule: rev_induct) auto
  show ?thesis
    by (simp add: jsonMatch_def d1 d2)
qed

lemma jsonMatch_None_parse:
  "jsonMatch text = None \<Longrightarrow> parseAction env text = Inl (Error ''No JSON object found in response.'')"
  by (simp add: parseAction_def)

lemma parse_failure_cases:
  "jsonMatch text = None \<or> (\<exists>m e. jsonMatch text = Some m \<and> JSON_parse env m = Inl e)
   \<Longrightarrow> \<exists>e. parseAction env text = Inl e"
  by (auto simp: parseAction_def)

section \<open>What the serializer writes\<close>

lemma mapE_Inr:
  "mapE f xs = Inr ys \<Longrightarrow>
     length ys = length xs \<and> (\<forall>k < length xs. f (xs ! k) = Inr (ys ! k))"
proof (induction xs arbitrary: ys)
  case Nil
  then show ?case by simp
next
  case (Cons x xs)
  from Cons.prems obtain y ys' where y: "f x = Inr y" and r: "mapE f xs = Inr ys'"
    and ys: "ys = y # ys'"
    by (auto split: sum.splits)
  from Cons.IH [OF r] y ys show ?case
    by (auto simp: nth_Cons split: nat.splits)
qed

lemma element_value_spec: "element_value el = spec_value el"
  by (simp add: element_value_def spec_value_def or_empty_def Let_def)

lemma serializeElement_line:
  "element_label doc el = Inr lab \<Longrightarrow>
     serializeElement doc el = Inr (element_line el (element_value el) (or_empty lab))"
  by (simp add: serializeElement_def element_line_def Let_def)

lemma getSerializedPage_join:
  assumes d: "page_document env (world s) = (Inr doc, w')"
    and l: "serializeElements doc = Inr lines"
  shows "fst (getSerializedPage env s) = Inr (join newline lines)"
  using d l by (simp add: getSerializedPage_def invoke_def page_evaluate_def)

lemma join_terminated:
  "lines \<noteq> [] \<Longrightarrow> join sep lines @ sep = concat (map (\<lambda>l. l @ sep) lines)"
  by (induction sep lines rule: join.induct) simp_all

lemma spec_lines_nonempty: "spec_lines t \<noteq> []"
  by (induction t) (auto split: list.splits)

lemma spec_lines_plain:
  "CHR 0x0A \<notin> set x \<Longrightarrow> spec_lines (x @ t) = (x @ hd (spec_lines t)) # tl (spec_lines t)"
proof (induction x)
  case Nil
  then show ?case using spec_lines_nonempty [of t] by simp
next
  case (Cons c x)
  then show ?case by auto
qed

lemma spec_lines_join:
  "lines \<noteq> [] \<Longrightarrow> \<forall>l \<in> set lines. CHR 0x0A \<notin> set l \<Longrightarrow>
     spec_lines (join newline lines) = lines"
proof (induction newline lines rule: join.induct)
  case 1
  then show ?case by simp
next
  case (2 x)
  then show ?case using spec_lines_plain [of x "[]"] by simp
next
  case (3 x y ys)
  then show ?case using spec_lines_plain [of x "newline @ join newline (y # ys)"]
    by (simp add: newline_def)
qed




section \<open>The sample collaborators at work\<close>

lemma demo_serialize: "serializeElements demo_document = Inr demo_lines"
  by code_simp

lemma demo_evaluate:
  "page_evaluate (demo_env b rs) serializeElements w = (Inr demo_lines, w)"
  by (simp add: page_evaluate_def demo_env_def demo_serialize)

lemma demo_generate:
  "generateText (demo_env b rs) h w =
     (if w < length rs then Inr (rs ! w) else Inl (Error ''model unavailable''), Suc w)"
  by (simp add: demo_env_def)

lemma demo_calls [simp]:
  "chromium_launch (demo_env b rs) w = (if b then Inr () else Inl (Error ''launch failed''), w)"
  "browser_newPage (demo_env b rs) w = (Inr (), w)"
  "page_goto (demo_env b rs) url w = (Inr (), w)"
  "getByLabel_fill (demo_env b rs) x y w = (Inr (), w)"
  "getByRole_click (demo_env b rs) x y w = (Inr (), w)"
  "getByLabel_selectOption (demo_env b rs) x y w = (Inr (), w)"
  "page_waitForTimeout (demo_env b rs) n w = (Inr (), w)"
  "browser_close (demo_env b rs) w = (Inr (), w)"
  "JSON_parse (demo_env b rs) = demo_parse"
  by (simp_all add: demo_env_def)

lemma demo_document_page: "page_document (demo_env b rs) w = (Inr demo_document, w)"
  by (simp add: demo_env_def)

lemma finish_match: \<open>jsonMatch finish_reply = Some ''{"action":"finish"}''\<close>
  by (simp add: jsonMatch_def finish_reply_def)

lemma finish_parse:
  "parseAction (demo_env b rs) finish_reply = Inr (JObj [(''action'', JStr ''finish'')])"
  by (simp add: parseAction_def finish_match demo_parse_def)

lemma finish_reply_split:
  \<open>finish_reply = ''Sure, the form is done: '' @ ''{"action":"finish"}'' @ '' Goodbye.''\<close>
  by (simp add: finish_reply_def)

lemma prose_match: "jsonMatch prose_reply = None"
  by (simp add: jsonMatch_def prose_reply_def)

lemma dance_parse:
  "parseAction (demo_env b rs) dance_reply = Inr (JObj [(''action'', JStr ''dance'')])"
  by (simp add: parseAction_def jsonMatch_def dance_reply_def demo_parse_def)

lemma two_objects_jsonMatch: "jsonMatch two_objects_reply = Some two_objects_match"
  by (simp add: jsonMatch_def two_objects_reply_def two_objects_match_def)

lemma two_objects_parse:
  "parseAction (demo_env b rs) two_objects_reply = Inl (Error ''Unexpected token'')"
  by (simp add: parseAction_def two_objects_jsonMatch) (simp add: demo_parse_def two_objects_match_def)

lemma demo_step_prose:
  "world s < length rs \<Longrightarrow> rs ! world s = prose_reply \<Longrightarrow>
   step (demo_env b rs) i s
     = (Continue, push correction (log_event (ParseFailed (Error ''No JSON object found in response.''))
                    (thought (perceived s i demo_lines (world s)) prose_reply (Suc (world s)))))"
proof -
  assume a: "world s < length rs" "rs ! world s = prose_reply"
  note st = step_think [where env = "demo_env b rs" and s = s and elements = demo_lines
      and ?w1.0 = "world s" and i = i and ?text = prose_reply and ?w2.0 = "Suc (world s)"]
  have "step (demo_env b rs) i s =
     (case parseAction (demo_env b rs) prose_reply of
        Inl e \<Rightarrow> (Continue, push correction
                     (log_event (ParseFailed e)
                        (thought (perceived s i demo_lines (world s)) prose_reply (Suc (world s)))))
      | Inr action \<Rightarrow> dispatch (demo_env b rs) action
                        (thought (perceived s i demo_lines (world s)) prose_reply (Suc (world s))))"
    using a by (intro st) (simp_all add: demo_evaluate demo_generate)
  then show ?thesis by (simp add: jsonMatch_None_parse [OF prose_match])
qed

lemma demo_step_finish:
  "world s < length rs \<Longrightarrow> rs ! world s = finish_reply \<Longrightarrow>
   step (demo_env b rs) i s
     = (Return, log_event (Returned (WaitForTimeout max_wait))
                  (thought (perceived s i demo_lines (world s)) finish_reply (Suc (world s))))"
proof -
  assume a: "world s < length rs" "rs ! world s = finish_reply"
  note st = step_think [where env = "demo_env b rs" and s = s and elements = demo_lines
      and ?w1.0 = "world s" and i = i and ?text = finish_reply and ?w2.0 = "Suc (world s)"]
  have "step (demo_env b rs) i s =
     (case parseAction (demo_env b rs) finish_reply of
        Inl e \<Rightarrow> (Continue, push correction
                     (log_event (ParseFailed e)
                        (thought (perceived s i demo_lines (world s)) finish_reply (Suc (world s)))))
      | Inr action \<Rightarrow> dispatch (demo_env b rs) action
                        (thought (perceived s i demo_lines (world s)) finish_reply (Suc (world s))))"
    using a by (intro st) (simp_all add: demo_evaluate demo_generate)
  then show ?thesis
    by (simp add: finish_parse dispatch_def invoke_def log_event_def)
qed

lemma demo_step_dance:
  assumes a: "world s < length rs" "rs ! world s = dance_reply"
  shows "step (demo_env b rs) i s
     = (Continue, thought (perceived s i demo_lines (world s)) dance_reply (Suc (world s)))"
proof -
  note st = step_think [where env = "demo_env b rs" and s = s and elements = demo_lines
      and ?w1.0 = "world s" and i = i and ?text = dance_reply and ?w2.0 = "Suc (world s)"]
  have "step (demo_env b rs) i s =
     (case parseAction (demo_env b rs) dance_reply of
        Inl e \<Rightarrow> (Continue, push correction
                     (log_event (ParseFailed e)
                        (thought (perceived s i demo_lines (world s)) dance_reply (Suc (world s)))))
      | Inr action \<Rightarrow> dispatch (demo_env b rs) action
                        (thought (perceived s i demo_lines (world s)) dance_reply (Suc (world s))))"
    using a by (intro st) (simp_all add: demo_evaluate demo_generate)
  then show ?thesis
    by (simp add: dance_parse dispatch_def to_string_def)
qed

lemma demo_dance_steps:
  "world s + n \<le> m \<Longrightarrow>
   \<exists>s'. run_steps (demo_env b (replicate m dance_reply)) n i s = Some s'"
proof (induction n arbitrary: i s)
  case 0
  then show ?case by simp
next
  case (Suc n)
  from Suc.prems have lt: "world s < m" by simp
  let ?s1 = "thought (perceived s i demo_lines (world s)) dance_reply (Suc (world s))"
  have st: "step (demo_env b (replicate m dance_reply)) i s = (Continue, ?s1)"
    using lt by (intro demo_step_dance) simp_all
  from Suc.prems have "world ?s1 + n \<le> m" by simp
  from Suc.IH [OF this, of "i + 1"] st show ?case by simp
qed



lemma demo_run_prose_finish:
  "main (demo_env True [prose_reply, finish_reply]) JNull 0 =
     (Inr (),
      \<lparr>world = 2,
       trace = [Returned Launch, Returned NewPage, Returned (Goto target_url), EnterStep 0,
                Returned Evaluate,
                Returned (GenerateText
                  [\<lparr>role = System, content = systemPrompt (demo_env True [prose_reply, finish_reply]) JNull\<rparr>,
                   \<lparr>role = User, content = currentPrompt (join newline demo_lines)\<rparr>]),
                ParseFailed (Error ''No JSON object found in response.''),
                EnterStep 1,
                Returned Evaluate,
                Returned (GenerateText
                  [\<lparr>role = System, content = systemPrompt (demo_env True [prose_reply, finish_reply]) JNull\<rparr>,
                   \<lparr>role = User, content = currentPrompt (join newline demo_lines)\<rparr>,
                   \<lparr>role = Assistant, content = prose_reply\<rparr>,
                   correction,
                   \<lparr>role = User, content = currentPrompt (join newline demo_lines)\<rparr>]),
                Returned (WaitForTimeout 60000), Returned Close],
       conversationHistory =
         [\<lparr>role = System, content = systemPrompt (demo_env True [prose_reply, finish_reply]) JNull\<rparr>,
          \<lparr>role = User, content = currentPrompt (join newline demo_lines)\<rparr>,
          \<lparr>role = Assistant, content = prose_reply\<rparr>,
          correction,
          \<lparr>role = User, content = currentPrompt (join newline demo_lines)\<rparr>,
          \<lparr>role = Assistant, content = finish_reply\<rparr>]\<rparr>)"
  by (simp add: main_def main_try_def createSession_def invoke_def fresh_def init_history_def
      loop_unfold [of _ 0] loop_unfold [of _ "Suc 0"] maxSteps_def demo_step_prose demo_step_finish
      log_event_def push_def thought_def perceived_def max_wait_def)

lemma demo_run_steps_prose:
  "run_steps (demo_env True [prose_reply, finish_reply]) 1 0
     (init_history (demo_env True [prose_reply, finish_reply]) JNull (fresh 0))
   = Some (push correction (log_event (ParseFailed (Error ''No JSON object found in response.''))
       (thought (perceived (init_history (demo_env True [prose_reply, finish_reply]) JNull (fresh 0))
          0 demo_lines 0) prose_reply 1)))"
  by (simp add: demo_step_prose)

lemma demo_run_exhausted:
  "fst (main (demo_env True (replicate 20 dance_reply)) JNull 0) = Inr ()
   \<and> steps_entered (trace (snd (main (demo_env True (replicate 20 dance_reply)) JNull 0))) = 20"
proof -
  let ?env = "demo_env True (replicate 20 dance_reply)"
  let ?s2 = "log_event (Returned (Goto target_url))
               (log_event (Returned NewPage) (log_event (Returned Launch) (fresh 0)))"
  have cs: "createSession ?env target_url (log_event (Returned Launch) (fresh 0)) = (Inr (), ?s2)"
    by (simp add: createSession_def invoke_def log_event_def fresh_def)
  have "world (init_history ?env JNull ?s2) + 20 \<le> 20" by simp
  from demo_dance_steps [OF this, of True 0] obtain s'
    where r: "run_steps ?env 20 0 (init_history ?env JNull ?s2) = Some s'" by blast
  from loop_run_steps [OF r] have lp: "loop ?env 0 (init_history ?env JNull ?s2) = (Exhausted, s')"
    by (simp add: maxSteps_def loop_exhausted [unfolded maxSteps_def])
  from run_steps_shape [OF r] have n: "steps_entered (trace s') = 20"
    by (simp add: steps_entered_def)
  have mt: "main_try ?env JNull (fresh 0) = (Inr (), True, s')"
    by (simp add: main_try_def invoke_def cs [unfolded log_event_def fresh_def, simplified]
        log_event_def fresh_def lp [unfolded log_event_def fresh_def init_history_def, simplified]
        init_history_def)
  have m: "main ?env JNull 0 = (Inr (), log_event (Returned Close) s')"
    by (simp add: main_def mt invoke_def log_event_def)
  show ?thesis using n by (simp add: m steps_entered_def)
qed

lemma demo_values:
  "spec_value demo_input = ''Ann''"
  "spec_value demo_select = ''Other''"
  "spec_value demo_button = []"
  by code_simp+

lemma demo_element_lines:
  "element_line demo_input ''Ann'' ''First Name'' = demo_lines ! 0"
  "element_line demo_select ''Other'' ''Gender'' = demo_lines ! 1"
  "element_line demo_button [] ''Submit'' = demo_lines ! 2"
  by code_simp+

lemma unprintable_parse:
  "parseAction (demo_env b rs) unprintable_reply
     = Inr (JObj [(''action'', JObj [(''toString'', JNum 1)])])"
  by (simp add: parseAction_def jsonMatch_def unprintable_reply_def demo_parse_def)

lemma unprintable_dispatch:
  "dispatch (demo_env b rs) (JObj [(''action'', JObj [(''toString'', JNum 1)])]) s
     = (Throw (TypeError ''Cannot convert object to primitive value''),
        log_event (DispatchThrew (TypeError ''Cannot convert object to primitive value'')) s)"
  by (simp add: dispatch_def to_string_def)

lemma demo_step_unprintable:
  assumes a: "world s < length rs" "rs ! world s = unprintable_reply"
  shows "step (demo_env b rs) i s
     = (Throw (TypeError ''Cannot convert object to primitive value''),
        log_event (DispatchThrew (TypeError ''Cannot convert object to primitive value''))
          (thought (perceived s i demo_lines (world s)) unprintable_reply (Suc (world s))))"
proof -
  note st = step_think [where env = "demo_env b rs" and s = s and elements = demo_lines
      and ?w1.0 = "world s" and i = i and ?text = unprintable_reply and ?w2.0 = "Suc (world s)"]
  have "step (demo_env b rs) i s =
     (case parseAction (demo_env b rs) unprintable_reply of
        Inl e \<Rightarrow> (Continue, push correction
                     (log_event (ParseFailed e)
                        (thought (perceived s i demo_lines (world s)) unprintable_reply (Suc (world s)))))
      | Inr action \<Rightarrow> dispatch (demo_env b rs) action
                        (thought (perceived s i demo_lines (world s)) unprintable_reply (Suc (world s))))"
    using a by (intro st) (simp_all add: demo_evaluate demo_generate)
  then show ?thesis
    by (simp add: unprintable_parse unprintable_dispatch)
qed

lemma demo_run_unprintable:
  "main (demo_env True [unprintable_reply]) JNull 0 =
     (Inl (TypeError ''Cannot convert object to primitive value''),
      \<lparr>world = 1,
       trace = [Returned Launch, Returned NewPage, Returned (Goto target_url), EnterStep 0,
                Returned Evaluate,
                Returned (GenerateText
                  [\<lparr>role = System, content = systemPrompt (demo_env True [unprintable_reply]) JNull\<rparr>,
                   \<lparr>role = User, content = currentPrompt (join newline demo_lines)\<rparr>]),
                DispatchThrew (TypeError ''Cannot convert object to primitive value''),
                Returned Close],
       conversationHistory =
         [\<lparr>role = System, content = systemPrompt (demo_env True [unprintable_reply]) JNull\<rparr>,
          \<lparr>role = User, content = currentPrompt (join newline demo_lines)\<rparr>,
          \<lparr>role = Assistant, content = unprintable_reply\<rparr>]\<rparr>)"
  by (simp add: main_def main_try_def createSession_def invoke_def fresh_def init_history_def
      loop_unfold [of _ 0] maxSteps_def demo_step_unprintable
      log_event_def push_def thought_def perceived_def)

lemma demo_labels:
  "element_label demo_document demo_input = Inr (Some ''First Name'')"
  "element_label demo_document demo_select = Inr (Some ''Gender'')"
  "element_label demo_document demo_button = Inr (Some ''Submit'')"
  by code_simp+

lemma multiline_serialize: "serializeElements multiline_document = Inr [multiline_snapshot]"
  by code_simp

lemma multiline_page:
  "fst (getSerializedPage multiline_env (fresh 0)) = Inr multiline_snapshot"
  by (simp add: getSerializedPage_def invoke_def page_evaluate_def multiline_env_def
      demo_env_def multiline_serialize fresh_def)

lemma multiline_lines:
  \<open>spec_lines multiline_snapshot
     = [''<textarea type="" name="notes" value="penicillin'', ''latex"></textarea>'']\<close>
  by code_simp

lemma demo_lines_plain: "\<forall>l \<in> set demo_lines. CHR 0x0A \<notin> set l"
  by code_simp






section \<open>The claims\<close>

text \<open>
  C1, as the specification states it: whenever the model output contains a balanced
  brace-delimited JSON substring with a recognized action, the parser extracts exactly
  that substring. The program's pattern runs from the first opening brace to the last
  closing brace of the whole text, so a brace in the prose after the object is taken into
  the match: on the reply below, which starts with the object of the \<open>finish\<close> action,
  the match is longer than that object, it does not parse, and the step ends with the
  corrective message instead of dispatching \<open>finish\<close>.
\<close>

theorem parser_balanced_substring_counterexample:
  \<open>two_objects_reply = ''{"action":"finish"}'' @ '' (see {notes})''
   \<and> spec_balanced ''{"action":"finish"}''
   \<and> demo_parse ''{"action":"finish"}'' = Inr (JObj [(''action'', JStr ''finish'')])
   \<and> jsonMatch two_objects_reply = Some two_objects_match
   \<and> two_objects_match = ''{"action":"finish"} (see {notes}''
   \<and> jsonMatch two_objects_reply \<noteq> Some ''{"action":"finish"}''
   \<and> parseAction (demo_env True [two_objects_reply]) two_objects_reply
       = Inl (Error ''Unexpected token'')
   \<and> step (demo_env True [two_objects_reply]) 0 (fresh 0)
       = (Continue,
          push correction (log_event (ParseFailed (Error ''Unexpected token''))
            (thought (perceived (fresh 0) 0 demo_lines 0) two_objects_reply 1)))\<close>
proof -
  have a: \<open>two_objects_reply = ''{"action":"finish"}'' @ '' (see {notes})''\<close>
    by (simp add: two_objects_reply_def)
  have b: \<open>spec_balanced ''{"action":"finish"}''\<close>
    by (simp add: spec_balanced_def)
  have c: \<open>demo_parse ''{"action":"finish"}'' = Inr (JObj [(''action'', JStr ''finish'')])\<close>
    by (simp add: demo_parse_def)
  have d: \<open>jsonMatch two_objects_reply \<noteq> Some ''{"action":"finish"}''\<close>
    by (simp add: two_objects_jsonMatch) (simp add: two_objects_match_def)
  have e: "step (demo_env True [two_objects_reply]) 0 (fresh 0)
       = (Continue,
          push correction (log_event (ParseFailed (Error ''Unexpected token''))
            (thought (perceived (fresh 0) 0 demo_lines 0) two_objects_reply 1)))"
  proof -
    note st = step_think [where env = "demo_env True [two_objects_reply]" and s = "fresh 0"
        and elements = demo_lines and ?w1.0 = 0 and i = 0 and ?text = two_objects_reply
        and ?w2.0 = 1]
    have "step (demo_env True [two_objects_reply]) 0 (fresh 0) =
       (case parseAction (demo_env True [two_objects_reply]) two_objects_reply of
          Inl e \<Rightarrow> (Continue, push correction
                     (log_event (ParseFailed e)
                        (thought (perceived (fresh 0) 0 demo_lines 0) two_objects_reply 1)))
        | Inr action \<Rightarrow> dispatch (demo_env True [two_objects_reply]) action
                          (thought (perceived (fresh 0) 0 demo_lines 0) two_objects_reply 1))"
      by (rule st) (simp_all add: demo_evaluate demo_generate)
    then show ?thesis by (simp add: two_objects_parse)
  qed
  from a b c two_objects_jsonMatch two_objects_match_def d two_objects_parse e
  show ?thesis by blast
qed

text \<open>
  C1, amended. For every model output \<open>pre @ j @ post\<close> in which \<open>j\<close> starts with an
  opening brace and ends with a closing brace, the prose \<open>pre\<close> before it holds no
  opening brace and the prose \<open>post\<close> after it holds no closing brace, the parser
  extracts exactly \<open>j\<close> and parses it; when that succeeds, the parsed object is what the
  step hands to the dispatcher.
\<close>

theorem parser_extracts_first_to_last_brace:
  assumes pre: "CHR ''{'' \<notin> set pre" and post: "CHR ''}'' \<notin> set post"
    and j: "j = CHR ''{'' # body @ [CHR ''}'']"
  shows "jsonMatch (pre @ j @ post) = Some j
    \<and> parseAction env (pre @ j @ post) = JSON_parse env j
    \<and> (page_evaluate env serializeElements (world s) = (Inr elements, w1)
        \<and> generateText env (conversationHistory (perceived s i elements w1)) w1
            = (Inr (pre @ j @ post), w2)
        \<and> JSON_parse env j = Inr action
       \<longrightarrow> step env i s = dispatch env action (thought (perceived s i elements w1) (pre @ j @ post) w2))"
proof -
  from jsonMatch_between [OF pre post, of body] j
  have m: "jsonMatch (pre @ j @ post) = Some j" by simp
  then have p: "parseAction env (pre @ j @ post) = JSON_parse env j"
    by (simp add: parseAction_def)
  show ?thesis
  proof (intro conjI impI)
    show "jsonMatch (pre @ j @ post) = Some j" by (rule m)
    show "parseAction env (pre @ j @ post) = JSON_parse env j" by (rule p)
  next
    assume a: "page_evaluate env serializeElements (world s) = (Inr elements, w1)
        \<and> generateText env (conversationHistory (perceived s i elements w1)) w1
            = (Inr (pre @ j @ post), w2)
        \<and> JSON_parse env j = Inr action"
    then have "parseAction env (pre @ j @ post) = Inr action" using p by simp
    with step_think [of env s elements w1 i "pre @ j @ post" w2] a
    show "step env i s = dispatch env action (thought (perceived s i elements w1) (pre @ j @ post) w2)"
      by simp
  qed
qed

theorem parser_extracts_first_to_last_brace_witness:
  \<open>CHR ''{'' \<notin> set ''Sure, the form is done: ''
   \<and> CHR ''}'' \<notin> set '' Goodbye.''
   \<and> jsonMatch finish_reply = Some ''{"action":"finish"}''
   \<and> parseAction (demo_env True [finish_reply]) finish_reply
       = Inr (JObj [(''action'', JStr ''finish'')])
   \<and> page_evaluate (demo_env True [finish_reply]) serializeElements (world (fresh 0))
       = (Inr demo_lines, 0)
   \<and> generateText (demo_env True [finish_reply])
        (conversationHistory (perceived (fresh 0) 0 demo_lines 0)) 0 = (Inr finish_reply, 1)
   \<and> step (demo_env True [finish_reply]) 0 (fresh 0)
       = dispatch (demo_env True [finish_reply]) (JObj [(''action'', JStr ''finish'')])
           (thought (perceived (fresh 0) 0 demo_lines 0) finish_reply 1)\<close>
proof -
  have h1: "CHR ''{'' \<notin> set ''Sure, the form is done: ''" by simp
  have h2: "CHR ''}'' \<notin> set '' Goodbye.''" by simp
  have h3: \<open>''{"action":"finish"}'' = CHR ''{'' # ''"action":"finish"'' @ [CHR ''}'']\<close> by simp
  note t = parser_extracts_first_to_last_brace
    [OF h1 h2 h3, where env = "demo_env True [finish_reply]" and s = "fresh 0"
       and elements = demo_lines and ?w1.0 = 0 and i = 0 and ?w2.0 = 1
       and action = "JObj [(''action'', JStr ''finish'')]", folded finish_reply_split]
  have e: "page_evaluate (demo_env True [finish_reply]) serializeElements (world (fresh 0))
       = (Inr demo_lines, 0)"
    by (simp add: demo_evaluate)
  have g: "generateText (demo_env True [finish_reply])
        (conversationHistory (perceived (fresh 0) 0 demo_lines 0)) 0 = (Inr finish_reply, 1)"
    by (simp add: demo_generate)
  have p: \<open>JSON_parse (demo_env True [finish_reply]) ''{"action":"finish"}''
           = Inr (JObj [(''action'', JStr ''finish'')])\<close>
    by (simp add: demo_parse_def)
  from t e g p h1 h2 show ?thesis by simp
qed



text \<open>
  C3, as the specification states it: the workflow entry point rejects exactly when a
  dispatch error or an upstream collaborator error occurs. On the reply \<open>{"action":{"toString":1}}\<close> it
  rejects although neither occurred: every collaborator call of the run returned, no
  locator was called, and the reply parsed to an action of an unknown kind, which is
  meant to be skipped. The rejection is the \<open>TypeError\<close> thrown by the log line of the
  default branch, re-thrown by the outer \<open>catch\<close>; the browser is still closed.
\<close>

theorem main_rejects_without_a_failed_call:
  "fst (main (demo_env True [unprintable_reply]) JNull 0)
     = Inl (TypeError ''Cannot convert object to primitive value'')
   \<and> trace (snd (main (demo_env True [unprintable_reply]) JNull 0))
       = [Returned Launch, Returned NewPage, Returned (Goto target_url), EnterStep 0,
          Returned Evaluate,
          Returned (GenerateText
            [\<lparr>role = System, content = systemPrompt (demo_env True [unprintable_reply]) JNull\<rparr>,
             \<lparr>role = User, content = currentPrompt (join newline demo_lines)\<rparr>]),
          DispatchThrew (TypeError ''Cannot convert object to primitive value''),
          Returned Close]"
  by (simp add: demo_run_unprintable)

text \<open>
  C4. For every model output from which no JSON object can be extracted (the pattern
  does not match, or the match does not parse), the step calls no locator and does not
  wait: after the model call the trace gains only the record of the parse failure and the
  world stays as the model call left it. The history gains the perception, the reply as
  it was, and exactly one corrective user message. The step ends in the next iteration, so
  it uses up one index of the step budget and the run goes on.
\<close>

theorem parse_failure_consumes_a_step_without_dispatch:
  assumes ev: "page_evaluate env serializeElements (world s) = (Inr elements, w1)"
    and gen: "generateText env (conversationHistory (perceived s i elements w1)) w1 = (Inr text, w2)"
    and nojson: "jsonMatch text = None
                 \<or> (\<exists>m e. jsonMatch text = Some m \<and> JSON_parse env m = Inl e)"
  shows "\<exists>e s'. step env i s = (Continue, s')
     \<and> world s' = w2
     \<and> trace s' = trace s @ [EnterStep i, Returned Evaluate,
          Returned (GenerateText (conversationHistory s
            @ [\<lparr>role = User, content = currentPrompt (join newline elements)\<rparr>])),
          ParseFailed e]
     \<and> conversationHistory s' = conversationHistory s
          @ [\<lparr>role = User, content = currentPrompt (join newline elements)\<rparr>,
             \<lparr>role = Assistant, content = text\<rparr>,
             \<lparr>role = User, content = ''Your last response was invalid JSON. Please try again.''\<rparr>]
     \<and> (i < maxSteps \<longrightarrow> loop env i s = loop env (i + 1) s')"
proof -
  from parse_failure_cases [OF nojson] obtain e where p: "parseAction env text = Inl e" ..
  let ?s' = "push correction (log_event (ParseFailed e) (thought (perceived s i elements w1) text w2))"
  from step_think [OF ev gen] p have st: "step env i s = (Continue, ?s')" by simp
  have "world ?s' = w2" by simp
  moreover have "trace ?s' = trace s @ [EnterStep i, Returned Evaluate,
          Returned (GenerateText (conversationHistory s
            @ [\<lparr>role = User, content = currentPrompt (join newline elements)\<rparr>])),
          ParseFailed e]" by simp
  moreover have "conversationHistory ?s' = conversationHistory s
          @ [\<lparr>role = User, content = currentPrompt (join newline elements)\<rparr>,
             \<lparr>role = Assistant, content = text\<rparr>,
             \<lparr>role = User, content = ''Your last response was invalid JSON. Please try again.''\<rparr>]"
    by (simp add: correction_def)
  moreover have "i < maxSteps \<longrightarrow> loop env i s = loop env (i + 1) ?s'"
    using loop_continue [OF _ st] by simp
  ultimately show ?thesis using st by blast
qed

theorem parse_failure_consumes_a_step_without_dispatch_witness:
  "page_evaluate (demo_env True [prose_reply]) serializeElements (world (fresh 0)) = (Inr demo_lines, 0)
   \<and> generateText (demo_env True [prose_reply])
        (conversationHistory (perceived (fresh 0) 0 demo_lines 0)) 0 = (Inr prose_reply, 1)
   \<and> jsonMatch prose_reply = None
   \<and> (\<exists>e s'. step (demo_env True [prose_reply]) 0 (fresh 0) = (Continue, s')
        \<and> world s' = 1
        \<and> trace s' = [EnterStep 0, Returned Evaluate,
             Returned (GenerateText
               [\<lparr>role = User, content = currentPrompt (join newline demo_lines)\<rparr>]),
             ParseFailed e]
        \<and> conversationHistory s' =
             [\<lparr>role = User, content = currentPrompt (join newline demo_lines)\<rparr>,
              \<lparr>role = Assistant, content = prose_reply\<rparr>,
              \<lparr>role = User, content = ''Your last response was invalid JSON. Please try again.''\<rparr>]
        \<and> loop (demo_env True [prose_reply]) 0 (fresh 0)
            = loop (demo_env True [prose_reply]) 1 s')"
proof -
  have e: "page_evaluate (demo_env True [prose_reply]) serializeElements (world (fresh 0))
           = (Inr demo_lines, 0)"
    by (simp add: demo_evaluate)
  have g: "generateText (demo_env True [prose_reply])
        (conversationHistory (perceived (fresh 0) 0 demo_lines 0)) 0 = (Inr prose_reply, 1)"
    by (simp add: demo_generate)
  have n: "jsonMatch prose_reply = None
           \<or> (\<exists>m e. jsonMatch prose_reply = Some m \<and> JSON_parse (demo_env True [prose_reply]) m = Inl e)"
    by (simp add: prose_match)
  from parse_failure_consumes_a_step_without_dispatch [OF e g n]
  show ?thesis using e g prose_match by (simp add: maxSteps_def)
qed

text \<open>
  C5. The conversation history is append-only, and what is appended is fixed: the history
  before a pass through the loop body is a prefix of the history after it; a pass whose
  perception and model call succeed appends the user message with the snapshot and the
  assistant message with the reply, in this order, and after them the corrective user
  message exactly when the reply did not parse, the invalid reply staying in place. So
  after \<open>n\<close> passes that each ended in the next iteration, and when \<open>main\<close> returns
  normally, the history is the system message followed by one such block per pass
  (\<open>spec_history\<close>), with as many corrections as parse failures: \<open>1 + 2 * n\<close> messages
  plus one per parse failure, and \<open>1 + 2 * n\<close> when no reply failed to parse.
\<close>

theorem history_append_only_and_length:
  "prefix (conversationHistory s) (conversationHistory (snd (step env i s)))
   \<and> (page_evaluate env serializeElements (world s) = (Inr elements, w1)
      \<and> generateText env
           (conversationHistory s @ [\<lparr>role = User, content = currentPrompt (join newline elements)\<rparr>])
           w1 = (Inr text, w2) \<longrightarrow>
        conversationHistory (snd (step env i s))
          = conversationHistory s
            @ [\<lparr>role = User, content = currentPrompt (join newline elements)\<rparr>,
               \<lparr>role = Assistant, content = text\<rparr>]
            @ (if \<exists>e. parseAction env text = Inl e
               then [\<lparr>role = User,
                      content = ''Your last response was invalid JSON. Please try again.''\<rparr>]
               else []))
   \<and> (fst (step env i s) = Continue \<or> fst (step env i s) = Return \<longrightarrow>
        (\<exists>b. conversationHistory (snd (step env i s)) = conversationHistory s @ spec_block b
           \<and> parse_failures (trace (snd (step env i s)))
               = parse_failures (trace s) + (if spec_failed b then 1 else 0)))
   \<and> (run_steps env n 0 (init_history env data s0) = Some s' \<longrightarrow>
        (\<exists>steps. length steps = n
           \<and> conversationHistory s' = spec_history (systemPrompt env data) steps
           \<and> length (filter spec_failed steps) + parse_failures (trace s0)
               = parse_failures (trace s'))
        \<and> length (conversationHistory s') + parse_failures (trace s0)
            = 1 + 2 * n + parse_failures (trace s'))
   \<and> (fst (main env data w) = Inr () \<longrightarrow>
        (\<exists>steps. length steps = steps_entered (trace (snd (main env data w)))
           \<and> conversationHistory (snd (main env data w))
               = spec_history (systemPrompt env data) steps
           \<and> length (filter spec_failed steps)
               = parse_failures (trace (snd (main env data w))))
        \<and> length (conversationHistory (snd (main env data w)))
          = 1 + 2 * steps_entered (trace (snd (main env data w)))
            + parse_failures (trace (snd (main env data w))))
   \<and> length (spec_history sys blocks)
       = 1 + 2 * length blocks + length (filter spec_failed blocks)
   \<and> (length (filter spec_failed blocks) = 0 \<longrightarrow>
        length (spec_history sys blocks) = 1 + 2 * length blocks)"
proof (intro conjI impI)
  show "prefix (conversationHistory s) (conversationHistory (snd (step env i s)))"
    by (rule step_prefix [OF step_collapse])
next
  assume "page_evaluate env serializeElements (world s) = (Inr elements, w1)
      \<and> generateText env
           (conversationHistory s @ [\<lparr>role = User, content = currentPrompt (join newline elements)\<rparr>])
           w1 = (Inr text, w2)"
  then have e: "page_evaluate env serializeElements (world s) = (Inr elements, w1)"
    and g: "generateText env
           (conversationHistory s @ [\<lparr>role = User, content = currentPrompt (join newline elements)\<rparr>])
           w1 = (Inr text, w2)"
    by simp_all
  from step_think_history [OF e g, of i]
  show "conversationHistory (snd (step env i s))
          = conversationHistory s
            @ [\<lparr>role = User, content = currentPrompt (join newline elements)\<rparr>,
               \<lparr>role = Assistant, content = text\<rparr>]
            @ (if \<exists>e. parseAction env text = Inl e
               then [\<lparr>role = User,
                      content = ''Your last response was invalid JSON. Please try again.''\<rparr>]
               else [])"
    by (simp add: spec_block_def)
next
  assume "fst (step env i s) = Continue \<or> fst (step env i s) = Return"
  from step_block [OF step_collapse this] obtain b
    where "conversationHistory (snd (step env i s)) = conversationHistory s @ spec_block b"
      and "parse_failures (trace (snd (step env i s)))
             = parse_failures (trace s) + length (filter spec_failed [b])"
    by blast
  then have "conversationHistory (snd (step env i s)) = conversationHistory s @ spec_block b
           \<and> parse_failures (trace (snd (step env i s)))
               = parse_failures (trace s) + (if spec_failed b then 1 else 0)"
    by simp
  then show "\<exists>b. conversationHistory (snd (step env i s)) = conversationHistory s @ spec_block b
           \<and> parse_failures (trace (snd (step env i s)))
               = parse_failures (trace s) + (if spec_failed b then 1 else 0)"
    by blast
next
  assume r: "run_steps env n 0 (init_history env data s0) = Some s'"
  from run_steps_blocks [OF r]
  show "\<exists>steps. length steps = n
           \<and> conversationHistory s' = spec_history (systemPrompt env data) steps
           \<and> length (filter spec_failed steps) + parse_failures (trace s0)
               = parse_failures (trace s')"
    by (simp add: spec_history_def)
  from run_steps_shape [OF r]
  show "length (conversationHistory s') + parse_failures (trace s0)
            = 1 + 2 * n + parse_failures (trace s')"
    by simp
next
  assume ok: "fst (main env data w) = Inr ()"
  from main_shape(5) [OF main_collapse [of env data w]] ok
  show "\<exists>steps. length steps = steps_entered (trace (snd (main env data w)))
           \<and> conversationHistory (snd (main env data w))
               = spec_history (systemPrompt env data) steps
           \<and> length (filter spec_failed steps)
               = parse_failures (trace (snd (main env data w)))"
    by blast
  from main_shape(4) [OF main_collapse [of env data w]] ok
  show "length (conversationHistory (snd (main env data w)))
          = 1 + 2 * steps_entered (trace (snd (main env data w)))
            + parse_failures (trace (snd (main env data w)))"
    by simp
next
  show "length (spec_history sys blocks)
       = 1 + 2 * length blocks + length (filter spec_failed blocks)"
    by (rule spec_history_length)
next
  assume "length (filter spec_failed blocks) = 0"
  with spec_history_length [of sys blocks]
  show "length (spec_history sys blocks) = 1 + 2 * length blocks" by simp
qed

theorem history_append_only_and_length_witness:
  "page_evaluate (demo_env True [prose_reply, finish_reply]) serializeElements
       (world (init_history (demo_env True [prose_reply, finish_reply]) JNull (fresh 0)))
     = (Inr demo_lines, 0)
   \<and> generateText (demo_env True [prose_reply, finish_reply])
        (conversationHistory (init_history (demo_env True [prose_reply, finish_reply]) JNull (fresh 0))
           @ [\<lparr>role = User, content = currentPrompt (join newline demo_lines)\<rparr>]) 0
       = (Inr prose_reply, 1)
   \<and> (\<exists>e. parseAction (demo_env True [prose_reply, finish_reply]) prose_reply = Inl e)
   \<and> fst (step (demo_env True [prose_reply, finish_reply]) 0
        (init_history (demo_env True [prose_reply, finish_reply]) JNull (fresh 0))) = Continue
   \<and> conversationHistory (snd (step (demo_env True [prose_reply, finish_reply]) 0
        (init_history (demo_env True [prose_reply, finish_reply]) JNull (fresh 0))))
       = [\<lparr>role = System, content = systemPrompt (demo_env True [prose_reply, finish_reply]) JNull\<rparr>,
          \<lparr>role = User, content = currentPrompt (join newline demo_lines)\<rparr>,
          \<lparr>role = Assistant, content = prose_reply\<rparr>,
          \<lparr>role = User, content = ''Your last response was invalid JSON. Please try again.''\<rparr>]
   \<and> (\<exists>s'. run_steps (demo_env True [prose_reply, finish_reply]) 1 0
              (init_history (demo_env True [prose_reply, finish_reply]) JNull (fresh 0)) = Some s'
         \<and> parse_failures (trace s') = 1
         \<and> (\<exists>steps. length steps = 1
              \<and> conversationHistory s'
                  = spec_history (systemPrompt (demo_env True [prose_reply, finish_reply]) JNull) steps
              \<and> length (filter spec_failed steps) + 0 = parse_failures (trace s'))
         \<and> length (conversationHistory s') + 0 = 1 + 2 * 1 + parse_failures (trace s'))
   \<and> fst (main (demo_env True [prose_reply, finish_reply]) JNull 0) = Inr ()
   \<and> steps_entered (trace (snd (main (demo_env True [prose_reply, finish_reply]) JNull 0))) = 2
   \<and> parse_failures (trace (snd (main (demo_env True [prose_reply, finish_reply]) JNull 0))) = 1
   \<and> (\<exists>steps. length steps = 2
        \<and> conversationHistory (snd (main (demo_env True [prose_reply, finish_reply]) JNull 0))
            = spec_history (systemPrompt (demo_env True [prose_reply, finish_reply]) JNull) steps
        \<and> length (filter spec_failed steps) = 1)
   \<and> length (conversationHistory (snd (main (demo_env True [prose_reply, finish_reply]) JNull 0)))
       = 1 + 2 * 2 + 1
   \<and> conversationHistory (snd (main (demo_env True [prose_reply, finish_reply]) JNull 0))
       = spec_history (systemPrompt (demo_env True [prose_reply, finish_reply]) JNull)
           [(join newline demo_lines, prose_reply, True), (join newline demo_lines, finish_reply, False)]"
proof -
  let ?env = "demo_env True [prose_reply, finish_reply]"
  let ?s = "init_history ?env JNull (fresh 0)"
  let ?s' = "push correction (log_event (ParseFailed (Error ''No JSON object found in response.''))
          (thought (perceived ?s 0 demo_lines 0) prose_reply 1))"
  have e: "page_evaluate ?env serializeElements (world ?s) = (Inr demo_lines, 0)"
    by (simp add: demo_evaluate)
  have g: "generateText ?env
        (conversationHistory ?s @ [\<lparr>role = User, content = currentPrompt (join newline demo_lines)\<rparr>]) 0
       = (Inr prose_reply, 1)"
    by (simp add: demo_generate)
  have p: "\<exists>e. parseAction ?env prose_reply = Inl e"
    by (simp add: jsonMatch_None_parse [OF prose_match])
  have st: "fst (step ?env 0 ?s) = Continue"
    by (simp add: demo_step_prose)
  have m: "fst (main ?env JNull 0) = Inr ()"
    by (simp add: demo_run_prose_finish)
  have n: "steps_entered (trace (snd (main ?env JNull 0))) = 2"
    "parse_failures (trace (snd (main ?env JNull 0))) = 1"
    by (simp_all add: demo_run_prose_finish steps_entered_def parse_failures_def)
  have h: "conversationHistory (snd (main ?env JNull 0))
       = spec_history (systemPrompt ?env JNull)
           [(join newline demo_lines, prose_reply, True), (join newline demo_lines, finish_reply, False)]"
    by (simp add: demo_run_prose_finish spec_history_def spec_block_def correction_def)
  have r: "run_steps ?env 1 0 ?s = Some ?s'"
    by (rule demo_run_steps_prose)
  have pf: "parse_failures (trace ?s') = 1"
    by (simp add: parse_failures_def)
  note t = history_append_only_and_length
    [where env = ?env and i = 0 and n = 1 and data = JNull and w = 0 and ?s0.0 = "fresh 0"
       and s = ?s and s' = ?s' and elements = demo_lines and ?w1.0 = 0 and ?text = prose_reply
       and ?w2.0 = 1]
  from t e g p have a: "conversationHistory (snd (step ?env 0 ?s))
       = [\<lparr>role = System, content = systemPrompt ?env JNull\<rparr>,
          \<lparr>role = User, content = currentPrompt (join newline demo_lines)\<rparr>,
          \<lparr>role = Assistant, content = prose_reply\<rparr>,
          \<lparr>role = User, content = ''Your last response was invalid JSON. Please try again.''\<rparr>]"
    by simp
  from t r pf have b: "(\<exists>steps. length steps = 1
              \<and> conversationHistory ?s' = spec_history (systemPrompt ?env JNull) steps
              \<and> length (filter spec_failed steps) + 0 = parse_failures (trace ?s'))
         \<and> length (conversationHistory ?s') + 0 = 1 + 2 * 1 + parse_failures (trace ?s')"
    by (simp add: parse_failures_def)
  from t m n have c: "(\<exists>steps. length steps = 2
        \<and> conversationHistory (snd (main ?env JNull 0)) = spec_history (systemPrompt ?env JNull) steps
        \<and> length (filter spec_failed steps) = 1)
     \<and> length (conversationHistory (snd (main ?env JNull 0))) = 1 + 2 * 2 + 1"
    by simp
  from r pf b have d: "\<exists>s'. run_steps ?env 1 0 ?s = Some s'
         \<and> parse_failures (trace s') = 1
         \<and> (\<exists>steps. length steps = 1
              \<and> conversationHistory s' = spec_history (systemPrompt ?env JNull) steps
              \<and> length (filter spec_failed steps) + 0 = parse_failures (trace s'))
         \<and> length (conversationHistory s') + 0 = 1 + 2 * 1 + parse_failures (trace s')"
    by blast
  show ?thesis
    using e g p st a d m n c h by blast
qed

text \<open>
  C6, as the specification states it: one line per element. The snapshot of a page whose only element is a
  text area with the value \<open>penicillin\<close>, line break, \<open>latex\<close> has two lines for its
  one element: the value is written as it is.
\<close>

theorem snapshot_line_per_element_counterexample:
  \<open>querySelectorAll multiline_document interactive_selector = [multiline_textarea]
   \<and> spec_value multiline_textarea = ''penicillin'' @ [CHR 0x0A] @ ''latex''
   \<and> fst (getSerializedPage multiline_env (fresh 0)) = Inr multiline_snapshot
   \<and> spec_lines multiline_snapshot
       = [''<textarea type="" name="notes" value="penicillin'', ''latex"></textarea>'']
   \<and> length (querySelectorAll multiline_document interactive_selector) = 1
   \<and> length (spec_lines multiline_snapshot) = 2\<close>
proof -
  have a: "querySelectorAll multiline_document interactive_selector = [multiline_textarea]"
    by (simp add: multiline_document_def)
  have b: "spec_value multiline_textarea = ''penicillin'' @ [CHR 0x0A] @ ''latex''"
    by code_simp
  show ?thesis
    using a b by (simp add: multiline_page multiline_lines)
qed

text \<open>
  C6, amended. The value field of an element is the current field value for an input or
  a text area, the visible text of the currently selected option (not its value
  attribute; empty when no option is selected) for a select, and empty for every other
  kind. The snapshot has one entry per selected element, in their order, each entry
  followed by a line break except the last; when no entry holds a line break, the lines
  of the snapshot are the entries, one line per element.
\<close>

theorem serialized_value_field:
  "(element_label doc el = Inr lab \<longrightarrow>
      serializeElement doc el = Inr (element_line el (spec_value el) (or_empty lab)))
   \<and> (page_document env (world s) = (Inr doc, w') \<and> serializeElements doc = Inr lines \<longrightarrow>
        length lines = length (querySelectorAll doc interactive_selector)
        \<and> (\<forall>k < length lines.
             serializeElement doc (querySelectorAll doc interactive_selector ! k) = Inr (lines ! k))
        \<and> (\<exists>snapshot. fst (getSerializedPage env s) = Inr snapshot
              \<and> (lines = [] \<longrightarrow> snapshot = [])
              \<and> (lines \<noteq> [] \<longrightarrow>
                   snapshot @ [CHR 0x0A] = concat (map (\<lambda>l. l @ [CHR 0x0A]) lines))
              \<and> (lines \<noteq> [] \<and> (\<forall>l \<in> set lines. CHR 0x0A \<notin> set l) \<longrightarrow>
                   spec_lines snapshot = lines)))"
proof (intro conjI impI)
  assume "element_label doc el = Inr lab"
  from serializeElement_line [OF this]
  show "serializeElement doc el = Inr (element_line el (spec_value el) (or_empty lab))"
    by (simp add: element_value_spec)
next
  assume a: "page_document env (world s) = (Inr doc, w') \<and> serializeElements doc = Inr lines"
  from a have m: "mapE (serializeElement doc) (querySelectorAll doc interactive_selector) = Inr lines"
    by (simp add: serializeElements_def)
  from mapE_Inr [OF m]
  show "length lines = length (querySelectorAll doc interactive_selector)" by simp
  from mapE_Inr [OF m]
  show "\<forall>k < length lines.
          serializeElement doc (querySelectorAll doc interactive_selector ! k) = Inr (lines ! k)"
    by simp
  from a have g: "fst (getSerializedPage env s) = Inr (join newline lines)"
    by (simp add: getSerializedPage_join)
  have e: "lines = [] \<longrightarrow> join newline lines = []" by simp
  have t: "lines \<noteq> [] \<longrightarrow>
       join newline lines @ [CHR 0x0A] = concat (map (\<lambda>l. l @ [CHR 0x0A]) lines)"
    using join_terminated [of lines newline] by (simp add: newline_def)
  have l: "lines \<noteq> [] \<and> (\<forall>l \<in> set lines. CHR 0x0A \<notin> set l) \<longrightarrow>
       spec_lines (join newline lines) = lines"
    using spec_lines_join [of lines] by blast
  from g e t l
  show "\<exists>snapshot. fst (getSerializedPage env s) = Inr snapshot
              \<and> (lines = [] \<longrightarrow> snapshot = [])
              \<and> (lines \<noteq> [] \<longrightarrow>
                   snapshot @ [CHR 0x0A] = concat (map (\<lambda>l. l @ [CHR 0x0A]) lines))
              \<and> (lines \<noteq> [] \<and> (\<forall>l \<in> set lines. CHR 0x0A \<notin> set l) \<longrightarrow>
                   spec_lines snapshot = lines)"
    by blast
qed

theorem serialized_value_field_witness:
  "element_label demo_document demo_input = Inr (Some ''First Name'')
   \<and> spec_value demo_input = ''Ann''
   \<and> serializeElement demo_document demo_input = Inr (demo_lines ! 0)
   \<and> element_label demo_document demo_select = Inr (Some ''Gender'')
   \<and> spec_value demo_select = ''Other''
   \<and> serializeElement demo_document demo_select = Inr (demo_lines ! 1)
   \<and> element_label demo_document demo_button = Inr (Some ''Submit'')
   \<and> spec_value demo_button = []
   \<and> serializeElement demo_document demo_button = Inr (demo_lines ! 2)
   \<and> page_document (demo_env True []) (world (fresh 0)) = (Inr demo_document, 0)
   \<and> serializeElements demo_document = Inr demo_lines
   \<and> demo_lines \<noteq> []
   \<and> filter (\<lambda>l. CHR 0x0A \<in> set l) demo_lines = []
   \<and> length demo_lines = length (querySelectorAll demo_document interactive_selector)
   \<and> (\<exists>snapshot. fst (getSerializedPage (demo_env True []) (fresh 0)) = Inr snapshot
         \<and> snapshot @ [CHR 0x0A] = concat (map (\<lambda>l. l @ [CHR 0x0A]) demo_lines)
         \<and> spec_lines snapshot = demo_lines)"
proof -
  have p: "page_document (demo_env True []) (world (fresh 0)) = (Inr demo_document, 0)"
    by (simp add: demo_document_page)
  have ne: "demo_lines \<noteq> []" by (simp add: demo_lines_def)
  note t = serialized_value_field [where env = "demo_env True []" and s = "fresh 0"
      and w' = 0 and lines = demo_lines and doc = demo_document]
  from t [where el = demo_input and lab = "Some ''First Name''"] demo_labels(1)
  have a: "serializeElement demo_document demo_input = Inr (demo_lines ! 0)"
    by (simp add: demo_values demo_element_lines or_empty_def)
  from t [where el = demo_select and lab = "Some ''Gender''"] demo_labels(2)
  have b: "serializeElement demo_document demo_select = Inr (demo_lines ! 1)"
    by (simp add: demo_values demo_element_lines or_empty_def)
  from t [where el = demo_button and lab = "Some ''Submit''"] demo_labels(3)
  have c: "serializeElement demo_document demo_button = Inr (demo_lines ! 2)"
    by (simp add: demo_values demo_element_lines or_empty_def)
  from t [where el = demo_input and lab = None] p demo_serialize ne demo_lines_plain
  have d: "length demo_lines = length (querySelectorAll demo_document interactive_selector)
     \<and> (\<exists>snapshot. fst (getSerializedPage (demo_env True []) (fresh 0)) = Inr snapshot
         \<and> snapshot @ [CHR 0x0A] = concat (map (\<lambda>l. l @ [CHR 0x0A]) demo_lines)
         \<and> spec_lines snapshot = demo_lines)"
    by blast
  have f: "filter (\<lambda>l. CHR 0x0A \<in> set l) demo_lines = []"
    using demo_lines_plain by (simp add: filter_empty_conv)
  show ?thesis
    using a b c d p ne f demo_serialize demo_labels demo_values by blast
qed




text \<open>
  C8, as the specification states it: an action whose kind is outside \<open>fill\<close>,
  \<open>click\<close>, \<open>select\<close> and \<open>finish\<close> is never fatal. The reply \<open>{"action":{"toString":1}}\<close> parses to such an
  action; the default branch of the dispatcher throws a \<open>TypeError\<close> while it writes the
  kind into its log line, so the step ends in a throw instead of the next iteration and
  the loop is aborted at its first pass. No locator is called.
\<close>

theorem unknown_action_with_unprintable_kind_is_fatal:
  \<open>unprintable_reply = ''{"action":{"toString":1}}''
   \<and> parseAction (demo_env True [unprintable_reply]) unprintable_reply
       = Inr (JObj [(''action'', JObj [(''toString'', JNum 1)])])
   \<and> get_prop (JObj [(''action'', JObj [(''toString'', JNum 1)])]) ''action'' \<notin>
       {Some (JStr ''fill''), Some (JStr ''click''), Some (JStr ''select''), Some (JStr ''finish'')}
   \<and> dispatch (demo_env True [unprintable_reply])
        (JObj [(''action'', JObj [(''toString'', JNum 1)])]) (fresh 0)
       = (Throw (TypeError ''Cannot convert object to primitive value''),
          log_event (DispatchThrew (TypeError ''Cannot convert object to primitive value''))
            (fresh 0))
   \<and> step (demo_env True [unprintable_reply]) 0 (fresh 0)
       = (Throw (TypeError ''Cannot convert object to primitive value''),
          log_event (DispatchThrew (TypeError ''Cannot convert object to primitive value''))
            (thought (perceived (fresh 0) 0 demo_lines 0) unprintable_reply 1))
   \<and> loop (demo_env True [unprintable_reply]) 0 (fresh 0)
       = (Aborted (TypeError ''Cannot convert object to primitive value''),
          log_event (DispatchThrew (TypeError ''Cannot convert object to primitive value''))
            (thought (perceived (fresh 0) 0 demo_lines 0) unprintable_reply 1))\<close>
proof -
  have s: "step (demo_env True [unprintable_reply]) 0 (fresh 0)
       = (Throw (TypeError ''Cannot convert object to primitive value''),
          log_event (DispatchThrew (TypeError ''Cannot convert object to primitive value''))
            (thought (perceived (fresh 0) 0 demo_lines 0) unprintable_reply 1))"
    by (simp add: demo_step_unprintable)
  have l: "loop (demo_env True [unprintable_reply]) 0 (fresh 0)
       = (Aborted (TypeError ''Cannot convert object to primitive value''),
          log_event (DispatchThrew (TypeError ''Cannot convert object to primitive value''))
            (thought (perceived (fresh 0) 0 demo_lines 0) unprintable_reply 1))"
    by (simp add: loop_unfold [of _ 0] maxSteps_def s)
  show ?thesis
    using s l by (simp add: unprintable_parse unprintable_dispatch) (simp add: unprintable_reply_def)
qed

text \<open>
  C9. For every run, the perceive-think-act loop body is entered at most
  \<open>maxSteps = 20\<close> times: the trace of a run of \<open>main\<close> holds at most 20 entries into
  the loop body, whatever the collaborators do; and the loop reached at index 20 stops
  without another call, leaving the state as it is.
\<close>

theorem loop_body_entered_at_most_maxSteps:
  "steps_entered (trace (snd (main env data w))) \<le> 20
   \<and> maxSteps = 20
   \<and> loop env maxSteps s = (Exhausted, s)"
proof -
  from main_shape(2) [OF main_collapse [of env data w]]
  have "steps_entered (trace (snd (main env data w))) \<le> maxSteps" .
  then show ?thesis by (simp add: maxSteps_def loop_exhausted [unfolded maxSteps_def])
qed

theorem loop_body_entered_at_most_maxSteps_witness:
  "steps_entered (trace (snd (main (demo_env True (replicate 20 dance_reply)) JNull 0))) \<le> 20
   \<and> steps_entered (trace (snd (main (demo_env True (replicate 20 dance_reply)) JNull 0))) = 20
   \<and> maxSteps = 20
   \<and> loop (demo_env True (replicate 20 dance_reply)) maxSteps (fresh 0) = (Exhausted, fresh 0)"
  using loop_body_entered_at_most_maxSteps
    [of "demo_env True (replicate 20 dance_reply)" JNull 0 "fresh 0"]
    demo_run_exhausted
  by blast

text \<open>
  C10. For every request to run the workflow whose body has \<open>firstName\<close> or
  \<open>lastName\<close> present but equal to the empty string, the handler answers with status
  400 and never starts the workflow: the world is untouched and no collaborator is
  called. The same holds for every falsy value of a required field, the absent one
  included.
\<close>

theorem handler_rejects_falsy_required_fields:
  "(get_prop payload ''firstName'' = Some (JStr []) \<or> get_prop payload ''lastName'' = Some (JStr [])
      \<longrightarrow> runWorkflowHandler env (Some payload) w = (missing_fields, fresh w))
   \<and> (\<not> truthy (get_prop payload ''firstName'') \<or> \<not> truthy (get_prop payload ''lastName'')
      \<longrightarrow> runWorkflowHandler env (Some payload) w = (missing_fields, fresh w))
   \<and> trace (fresh w) = [] \<and> world (fresh w) = w"
proof -
  have falsy: "runWorkflowHandler env (Some payload) w = (missing_fields, fresh w)"
    if "\<not> truthy (get_prop payload ''firstName'') \<or> \<not> truthy (get_prop payload ''lastName'')"
    using that by (auto simp: runWorkflowHandler_def missing_fields_def)
  have empty: "runWorkflowHandler env (Some payload) w = (missing_fields, fresh w)"
    if "get_prop payload ''firstName'' = Some (JStr [])
        \<or> get_prop payload ''lastName'' = Some (JStr [])"
  proof (rule falsy)
    from that
    show "\<not> truthy (get_prop payload ''firstName'') \<or> \<not> truthy (get_prop payload ''lastName'')"
      by auto
  qed
  from falsy empty show ?thesis by simp
qed

theorem handler_rejects_falsy_required_fields_witness:
  "get_prop (JObj [(''firstName'', JStr []), (''lastName'', JStr ''Lee'')]) ''firstName'' = Some (JStr [])
   \<and> \<not> truthy (get_prop (JObj [(''firstName'', JStr ''Ann'')]) ''lastName'')
   \<and> runWorkflowHandler (demo_env True [finish_reply])
        (Some (JObj [(''firstName'', JStr []), (''lastName'', JStr ''Lee'')])) 0
       = (missing_fields, fresh 0)
   \<and> runWorkflowHandler (demo_env True [finish_reply])
        (Some (JObj [(''firstName'', JStr ''Ann'')])) 0
       = (missing_fields, fresh 0)
   \<and> trace (snd (runWorkflowHandler (demo_env True [finish_reply])
        (Some (JObj [(''firstName'', JStr []), (''lastName'', JStr ''Lee'')])) 0)) = []"
  using handler_rejects_falsy_required_fields
      [where payload = "JObj [(''firstName'', JStr []), (''lastName'', JStr ''Lee'')]"
         and env = "demo_env True [finish_reply]" and w = 0]
    handler_rejects_falsy_required_fields
      [where payload = "JObj [(''firstName'', JStr ''Ann'')]"
         and env = "demo_env True [finish_reply]" and w = 0]
  by simp

end
